theory Spec2Isabelle
  imports Complex_Main "HOL-Library.AList" "HOL-Library.Multiset" "HOL-Library.Sublist"
    "HOL-Library.Char_ord" "HOL-Library.List_Lexorder"
begin

section \<open>JavaScript numbers\<close>

text \<open>
  The analytics code of the investment hub (\<^verbatim>\<open>lib/mockData.ts\<close> and the transactions
  page) computes with JavaScript numbers. A number is modelled as a real, or one of the
  three special values of IEEE arithmetic that the code can produce by dividing by zero:
  \<open>Infinity\<close>, \<open>-Infinity\<close> and \<open>NaN\<close>. The operations below follow ECMAScript on these
  four kinds of value. Finite arithmetic is exact: rounding, overflow of finite results
  and the sign of zero are not modelled (a zero divisor counts as \<open>+0\<close>). This idealised
  arithmetic serves the statements about formulas; the rounding arithmetic of the program
  follows in the section on double precision.
\<close>

datatype number = Fin real | PosInf | NegInf | NaN

fun is_fin :: "number \<Rightarrow> bool" where
  "is_fin (Fin a) = True"
| "is_fin _ = False"

fun real_of :: "number \<Rightarrow> real" where
  "real_of (Fin a) = a"
| "real_of _ = 0"

fun js_neg :: "number \<Rightarrow> number" where
  "js_neg (Fin a) = Fin (- a)"
| "js_neg PosInf = NegInf"
| "js_neg NegInf = PosInf"
| "js_neg NaN = NaN"

fun js_add :: "number \<Rightarrow> number \<Rightarrow> number" where
  "js_add (Fin a) (Fin b) = Fin (a + b)"
| "js_add NaN _ = NaN"
| "js_add _ NaN = NaN"
| "js_add PosInf NegInf = NaN"
| "js_add NegInf PosInf = NaN"
| "js_add PosInf _ = PosInf"
| "js_add _ PosInf = PosInf"
| "js_add NegInf _ = NegInf"
| "js_add _ NegInf = NegInf"

definition js_sub :: "number \<Rightarrow> number \<Rightarrow> number" where
  "js_sub a b = js_add a (js_neg b)"

fun js_mul :: "number \<Rightarrow> number \<Rightarrow> number" where
  "js_mul (Fin a) (Fin b) = Fin (a * b)"
| "js_mul NaN _ = NaN"
| "js_mul _ NaN = NaN"
| "js_mul (Fin a) PosInf = (if 0 < a then PosInf else if a < 0 then NegInf else NaN)"
| "js_mul (Fin a) NegInf = (if 0 < a then NegInf else if a < 0 then PosInf else NaN)"
| "js_mul PosInf (Fin b) = (if 0 < b then PosInf else if b < 0 then NegInf else NaN)"
| "js_mul NegInf (Fin b) = (if 0 < b then NegInf else if b < 0 then PosInf else NaN)"
| "js_mul PosInf PosInf = PosInf"
| "js_mul PosInf NegInf = NegInf"
| "js_mul NegInf PosInf = NegInf"
| "js_mul NegInf NegInf = PosInf"

fun js_div :: "number \<Rightarrow> number \<Rightarrow> number" where
  "js_div (Fin a) (Fin b) =
     (if b \<noteq> 0 then Fin (a / b)
      else if 0 < a then PosInf else if a < 0 then NegInf else NaN)"
| "js_div NaN _ = NaN"
| "js_div _ NaN = NaN"
| "js_div (Fin a) PosInf = Fin 0"
| "js_div (Fin a) NegInf = Fin 0"
| "js_div PosInf (Fin b) = (if 0 \<le> b then PosInf else NegInf)"
| "js_div NegInf (Fin b) = (if 0 \<le> b then NegInf else PosInf)"
| "js_div PosInf PosInf = NaN"
| "js_div PosInf NegInf = NaN"
| "js_div NegInf PosInf = NaN"
| "js_div NegInf NegInf = NaN"

fun js_lt :: "number \<Rightarrow> number \<Rightarrow> bool" where
  "js_lt NaN _ = False"
| "js_lt _ NaN = False"
| "js_lt (Fin a) (Fin b) = (a < b)"
| "js_lt _ NegInf = False"
| "js_lt NegInf _ = True"
| "js_lt PosInf _ = False"
| "js_lt _ PosInf = True"

definition js_gt :: "number \<Rightarrow> number \<Rightarrow> bool" where
  "js_gt a b = js_lt b a"

definition js_le :: "number \<Rightarrow> number \<Rightarrow> bool" where
  "js_le a b = (a \<noteq> NaN \<and> b \<noteq> NaN \<and> (js_lt a b \<or> a = b))"

definition js_ge :: "number \<Rightarrow> number \<Rightarrow> bool" where
  "js_ge a b = js_le b a"

text \<open>Truthiness of a number, as \<open>||\<close> and \<open>!\<close> test it: \<open>0\<close> and \<open>NaN\<close> are falsy.\<close>

fun truthy :: "number \<Rightarrow> bool" where
  "truthy (Fin a) = (a \<noteq> 0)"
| "truthy NaN = False"
| "truthy _ = True"

fun Math_sqrt :: "number \<Rightarrow> number" where
  "Math_sqrt (Fin a) = (if a < 0 then NaN else Fin (sqrt a))"
| "Math_sqrt PosInf = PosInf"
| "Math_sqrt _ = NaN"

text \<open>\<open>Math.pow\<close> at a natural exponent (the code only squares).\<close>

fun Math_pow :: "number \<Rightarrow> nat \<Rightarrow> number" where
  "Math_pow x 0 = Fin 1"
| "Math_pow (Fin a) n = Fin (a ^ n)"
| "Math_pow PosInf n = PosInf"
| "Math_pow NegInf n = (if even n then PosInf else NegInf)"
| "Math_pow NaN n = NaN"

text \<open>\<open>xs.reduce((sum, x) => sum + x, 0)\<close>.\<close>

definition js_sum :: "number list \<Rightarrow> number" where
  "js_sum xs = foldl js_add (Fin 0) xs"

text \<open>
  \<open>Array.prototype.sort\<close> with a comparator: a stable sort (ECMAScript 2019), here
  insertion from the right. An element moves behind its right neighbours only while the
  comparator is positive; a comparator result of \<open>0\<close> or \<open>NaN\<close> leaves the order alone.
\<close>

fun js_insort :: "('a \<Rightarrow> 'a \<Rightarrow> number) \<Rightarrow> 'a \<Rightarrow> 'a list \<Rightarrow> 'a list" where
  "js_insort cmp x [] = [x]"
| "js_insort cmp x (y # ys) =
     (if js_gt (cmp x y) (Fin 0) then y # js_insort cmp x ys else x # y # ys)"

definition js_sort :: "('a \<Rightarrow> 'a \<Rightarrow> number) \<Rightarrow> 'a list \<Rightarrow> 'a list" where
  "js_sort cmp xs = foldr (js_insort cmp) xs []"

text \<open>\<open>xs[i]\<close> for an integer index: \<open>undefined\<close> (here \<open>None\<close>) out of range.\<close>

definition js_index :: "'a list \<Rightarrow> int \<Rightarrow> 'a option" where
  "js_index xs i = (if 0 \<le> i \<and> i < int (length xs) then Some (xs ! nat i) else None)"

section \<open>Double-precision arithmetic\<close>

text \<open>
  The operations above compute exactly. The program computes in IEEE 754 binary64:
  every arithmetic operation on finite operands returns the exact result rounded to the
  nearest double, ties to the even significand (\<open>round_double\<close>). A nonzero real in the
  binade \<open>2^E \<le> |x| < 2^(E+1)\<close> is rounded to a multiple of \<open>2^(E-52)\<close>, and of \<open>2^(-1074)\<close>
  in the subnormal range; a result of magnitude \<open>2^1024\<close> or more overflows to an infinity.
  The sign of a zero result is not modelled.
\<close>

definition round_even :: "real \<Rightarrow> int" where
  "round_even x =
     (let f = \<lfloor>x\<rfloor>; r = x - of_int f
      in if r < 1 / 2 then f else if 1 / 2 < r then f + 1 else if even f then f else f + 1)"

definition quantum_exponent :: "real \<Rightarrow> int" where
  "quantum_exponent x = max (\<lfloor>log 2 \<bar>x\<bar>\<rfloor> - 52) (- 1074)"

definition rounded :: "real \<Rightarrow> real" where
  "rounded x =
     of_int (round_even (x / 2 powi quantum_exponent x)) * 2 powi quantum_exponent x"

definition round_double :: "real \<Rightarrow> number" where
  "round_double x =
     (if x = 0 then Fin 0
      else if 2 ^ 1024 \<le> rounded x then PosInf
      else if rounded x \<le> - (2 ^ 1024) then NegInf
      else Fin (rounded x))"

fun d_add :: "number \<Rightarrow> number \<Rightarrow> number" where
  "d_add (Fin a) (Fin b) = round_double (a + b)"
| "d_add a b = js_add a b"

fun d_sub :: "number \<Rightarrow> number \<Rightarrow> number" where
  "d_sub (Fin a) (Fin b) = round_double (a - b)"
| "d_sub a b = js_sub a b"

fun d_mul :: "number \<Rightarrow> number \<Rightarrow> number" where
  "d_mul (Fin a) (Fin b) = round_double (a * b)"
| "d_mul a b = js_mul a b"

fun d_div :: "number \<Rightarrow> number \<Rightarrow> number" where
  "d_div (Fin a) (Fin b) = (if b \<noteq> 0 then round_double (a / b) else js_div (Fin a) (Fin b))"
| "d_div a b = js_div a b"

text \<open>
  An arithmetic is the four operations together with the conversion of a decimal literal
  of the source (\<open>0.0003\<close>, \<open>0.02\<close>) to the number it denotes. \<open>exact\<close> is the idealised
  arithmetic of the first section, \<open>double\<close> the arithmetic of the program. The functions
  whose results depend on the order or the rounding of their sums are given below over an
  arbitrary arithmetic (suffix \<open>_in\<close>); integer literals are the same in every arithmetic.
\<close>

record arith =
  fp_add :: "number \<Rightarrow> number \<Rightarrow> number"
  fp_sub :: "number \<Rightarrow> number \<Rightarrow> number"
  fp_mul :: "number \<Rightarrow> number \<Rightarrow> number"
  fp_div :: "number \<Rightarrow> number \<Rightarrow> number"
  fp_lit :: "real \<Rightarrow> number"

definition exact :: arith where
  "exact = \<lparr> fp_add = js_add, fp_sub = js_sub, fp_mul = js_mul, fp_div = js_div, fp_lit = Fin \<rparr>"

definition double :: arith where
  "double = \<lparr> fp_add = d_add, fp_sub = d_sub, fp_mul = d_mul, fp_div = d_div,
               fp_lit = round_double \<rparr>"

text \<open>
  The order of the numbers other than \<open>NaN\<close>, as a real key: the infinities lie beyond
  every finite double.
\<close>

fun order_key :: "number \<Rightarrow> real" where
  "order_key (Fin a) = a"
| "order_key PosInf = 2 ^ 1024"
| "order_key NegInf = - (2 ^ 1024)"
| "order_key NaN = 0"

text \<open>
  The finite doubles are multiples of \<open>2^(-1074)\<close> below \<open>2^1024\<close> in magnitude. A stored
  number is a double or an infinity.
\<close>

definition on_grid :: "real \<Rightarrow> bool" where
  "on_grid y = (\<exists>n::int. y = of_int n * 2 powi (- 1074))"

definition stored :: "number \<Rightarrow> bool" where
  "stored v = (case v of Fin y \<Rightarrow> on_grid y \<and> \<bar>y\<bar> < 2 ^ 1024 | NaN \<Rightarrow> False | _ \<Rightarrow> True)"

section \<open>Data model (\<^verbatim>\<open>types/portfolio.ts\<close>)\<close>

text \<open>
  Field names are those of the TypeScript interfaces; where two interfaces share a field
  name the later record carries a prefix (\<open>txn_\<close>, \<open>snap_\<close>, \<open>sa_\<close>, \<open>aa_\<close>). A \<open>Date\<close> is
  its time value, a number.
\<close>

datatype AssetType = stock | etf | bond | crypto | cash

record Position =
  symbol :: string
  name :: string
  quantity :: number
  costBasis :: number
  currentPrice :: number
  marketValue :: number
  gainLoss :: number
  gainLossPercent :: number
  sector :: string
  assetType :: AssetType

datatype TxnType = buy | sell | dividend

record Transaction =
  txn_id :: string
  txn_date :: number
  txn_symbol :: string
  txn_type :: TxnType
  txn_quantity :: number
  price :: number
  total :: number
  fees :: number

record PortfolioSnapshot =
  snap_date :: number
  totalValue :: number
  cashBalance :: number
  positions :: "Position list"

record PerformanceMetrics =
  totalReturn :: number
  totalReturnPercent :: number
  dailyReturn :: number
  dailyReturnPercent :: number
  monthlyReturn :: number
  monthlyReturnPercent :: number
  ytdReturn :: number
  ytdReturnPercent :: number
  volatility :: number
  sharpeRatio :: number
  maxDrawdown :: number
  beta :: number

record SectorAllocation =
  sa_sector :: string
  sa_value :: number
  sa_percentage :: number
  sa_count :: nat

record AssetAllocation =
  aa_assetType :: AssetType
  aa_value :: number
  aa_percentage :: number

datatype error = TypeError

section \<open>The metrics engine: \<open>calculateMockMetrics\<close>\<close>

text \<open>\<open>positions.reduce((sum, p) => sum + p.marketValue, 0)\<close>.\<close>

definition currentValue :: "Position list \<Rightarrow> number" where
  "currentValue ps = foldl (\<lambda>sum p. js_add sum (marketValue p)) (Fin 0) ps"

definition totalCost :: "Position list \<Rightarrow> number" where
  "totalCost ps = foldl (\<lambda>sum p. js_add sum (js_mul (costBasis p) (quantity p))) (Fin 0) ps"

text \<open>
  \<open>snapshots[snapshots.length - k]?.totalValue || currentValue\<close>: the fallback is taken
  when the index is out of range and also when the snapshot's value is \<open>0\<close> or \<open>NaN\<close>.
\<close>

definition valueBack :: "nat \<Rightarrow> Position list \<Rightarrow> PortfolioSnapshot list \<Rightarrow> number" where
  "valueBack k ps snapshots =
     (case js_index snapshots (int (length snapshots) - int k) of
        None \<Rightarrow> currentValue ps
      | Some s \<Rightarrow> if truthy (totalValue s) then totalValue s else currentValue ps)"

definition yesterdayValue :: "Position list \<Rightarrow> PortfolioSnapshot list \<Rightarrow> number" where
  "yesterdayValue ps snapshots = valueBack 2 ps snapshots"

definition monthAgoValue :: "Position list \<Rightarrow> PortfolioSnapshot list \<Rightarrow> number" where
  "monthAgoValue ps snapshots = valueBack 30 ps snapshots"

text \<open>
  \<open>snapshots.find(s => s.date >= yearStart) || snapshots[0]\<close>; \<open>yearStart\<close>, January 1
  of the current year on the machine's clock, is a parameter. The result is \<open>undefined\<close>
  exactly for the empty series.
\<close>

definition ytdSnapshot :: "number \<Rightarrow> PortfolioSnapshot list \<Rightarrow> PortfolioSnapshot option" where
  "ytdSnapshot yearStart snapshots =
     (case find (\<lambda>s. js_ge (snap_date s) yearStart) snapshots of
        Some s \<Rightarrow> Some s
      | None \<Rightarrow> js_index snapshots 0)"

text \<open>
  \<open>snapshots.slice(1).map((snapshot, idx) => (snapshot.totalValue - prev) / prev)\<close> with
  \<open>prev = snapshots[idx].totalValue\<close>, the snapshot just before.
\<close>

fun dailyReturns :: "PortfolioSnapshot list \<Rightarrow> number list" where
  "dailyReturns (prev # snapshot # rest) =
     js_div (js_sub (totalValue snapshot) (totalValue prev)) (totalValue prev)
       # dailyReturns (snapshot # rest)"
| "dailyReturns _ = []"

definition avgReturn :: "number list \<Rightarrow> number" where
  "avgReturn rs = js_div (js_sum rs) (Fin (real (length rs)))"

definition variance :: "number list \<Rightarrow> number" where
  "variance rs =
     js_div (foldl (\<lambda>sum r. js_add sum (Math_pow (js_sub r (avgReturn rs)) 2)) (Fin 0) rs)
       (Fin (real (length rs)))"

definition volatility_of :: "PortfolioSnapshot list \<Rightarrow> number" where
  "volatility_of snapshots =
     js_mul (Math_sqrt (js_mul (variance (dailyReturns snapshots)) (Fin 252))) (Fin 100)"

definition riskFreeRate :: number where
  "riskFreeRate = Fin (4 / 100)"

text \<open>The drawdown loop: the state is \<open>(maxDrawdown, peak)\<close>.\<close>

definition drawdown_step :: "number \<times> number \<Rightarrow> PortfolioSnapshot \<Rightarrow> number \<times> number" where
  "drawdown_step st snapshot =
     (let maxDrawdown = fst st;
          peak = (if js_gt (totalValue snapshot) (snd st) then totalValue snapshot else snd st);
          drawdown = js_mul (js_div (js_sub peak (totalValue snapshot)) peak) (Fin 100)
      in (if js_gt drawdown maxDrawdown then drawdown else maxDrawdown, peak))"

definition maxDrawdown_of :: "PortfolioSnapshot \<Rightarrow> PortfolioSnapshot list \<Rightarrow> number" where
  "maxDrawdown_of first snapshots = fst (foldl drawdown_step (Fin 0, totalValue first) snapshots)"

text \<open>
  The function itself. Reading \<open>ytdSnapshot.totalValue\<close> of \<open>undefined\<close> throws a
  \<open>TypeError\<close>; this is the only statement of the function that can throw before
  \<open>snapshots[0].totalValue\<close>, which throws on the same inputs.
\<close>

definition calculateMockMetrics ::
  "number \<Rightarrow> Position list \<Rightarrow> PortfolioSnapshot list \<Rightarrow> error + PerformanceMetrics" where
  "calculateMockMetrics yearStart ps snapshots =
     (let cur = currentValue ps;
          cost = totalCost ps;
          totalReturn = js_sub cur cost;
          totalReturnPercent = js_mul (js_div totalReturn cost) (Fin 100);
          yesterday = yesterdayValue ps snapshots;
          dailyReturn = js_sub cur yesterday;
          dailyReturnPercent = js_mul (js_div dailyReturn yesterday) (Fin 100);
          monthAgo = monthAgoValue ps snapshots;
          monthlyReturn = js_sub cur monthAgo;
          monthlyReturnPercent = js_mul (js_div monthlyReturn monthAgo) (Fin 100)
      in case ytdSnapshot yearStart snapshots of
           None \<Rightarrow> Inl TypeError
         | Some ytd \<Rightarrow>
            (let ytdReturn = js_sub cur (totalValue ytd);
                 ytdReturnPercent = js_mul (js_div ytdReturn (totalValue ytd)) (Fin 100);
                 volatility = volatility_of snapshots;
                 excessReturn = js_sub (js_div totalReturnPercent (Fin 100)) riskFreeRate;
                 sharpeRatio = js_div excessReturn (js_div volatility (Fin 100))
             in case js_index snapshots 0 of
                  None \<Rightarrow> Inl TypeError
                | Some first \<Rightarrow>
                   Inr \<lparr> totalReturn = totalReturn,
                         totalReturnPercent = totalReturnPercent,
                         dailyReturn = dailyReturn,
                         dailyReturnPercent = dailyReturnPercent,
                         monthlyReturn = monthlyReturn,
                         monthlyReturnPercent = monthlyReturnPercent,
                         ytdReturn = ytdReturn,
                         ytdReturnPercent = ytdReturnPercent,
                         volatility = volatility,
                         sharpeRatio = sharpeRatio,
                         maxDrawdown = maxDrawdown_of first snapshots,
                         beta = Fin (95 / 100) \<rparr>))"

section \<open>The allocation engine\<close>

text \<open>
  A \<open>Map\<close> keeps its keys in insertion order, and \<open>set\<close> on a key already present keeps
  the key's place: an association list with \<open>AList.update\<close>. In \<open>calculateSectorAllocations\<close>
  the stored values are objects, so \<open>sectorMap.get(..) || {value: 0, count: 0}\<close> falls back
  only for a missing key.
\<close>

definition sectorMap_step ::
  "(string \<times> number \<times> nat) list \<Rightarrow> Position \<Rightarrow> (string \<times> number \<times> nat) list" where
  "sectorMap_step m position =
     (let existing = (case map_of m (sector position) of None \<Rightarrow> (Fin 0, 0) | Some e \<Rightarrow> e)
      in AList.update (sector position)
           (js_add (fst existing) (marketValue position), snd existing + 1) m)"

definition calculateSectorAllocations :: "Position list \<Rightarrow> SectorAllocation list" where
  "calculateSectorAllocations ps =
     (let sectorMap = foldl sectorMap_step [] ps;
          totalValue = currentValue ps
      in js_sort (\<lambda>a b. js_sub (sa_value b) (sa_value a))
           (map (\<lambda>(sector, data).
                   \<lparr> sa_sector = sector, sa_value = fst data,
                     sa_percentage = js_mul (js_div (fst data) totalValue) (Fin 100),
                     sa_count = snd data \<rparr>) sectorMap))"

text \<open>
  In \<open>calculateAssetAllocations\<close> the stored values are numbers, so
  \<open>assetMap.get(..) || 0\<close> also replaces a stored \<open>NaN\<close> by \<open>0\<close>.
\<close>

definition assetMap_step ::
  "(AssetType \<times> number) list \<Rightarrow> Position \<Rightarrow> (AssetType \<times> number) list" where
  "assetMap_step m position =
     (let existing = (case map_of m (assetType position) of
                        None \<Rightarrow> Fin 0
                      | Some v \<Rightarrow> if truthy v then v else Fin 0)
      in AList.update (assetType position) (js_add existing (marketValue position)) m)"

definition calculateAssetAllocations :: "Position list \<Rightarrow> AssetAllocation list" where
  "calculateAssetAllocations ps =
     (let assetMap = foldl assetMap_step [] ps;
          totalValue = currentValue ps
      in js_sort (\<lambda>a b. js_sub (aa_value b) (aa_value a))
           (map (\<lambda>(assetType, v).
                   \<lparr> aa_assetType = assetType, aa_value = v,
                     aa_percentage = js_mul (js_div v totalValue) (Fin 100) \<rparr>) assetMap))"

text \<open>
  \<open>calculateSectorAllocations\<close> over an arbitrary arithmetic. With \<open>exact\<close> it is the
  definition above, with \<open>double\<close> it computes as the program does.
\<close>

definition currentValue_in :: "arith \<Rightarrow> Position list \<Rightarrow> number" where
  "currentValue_in A ps = foldl (\<lambda>sum p. fp_add A sum (marketValue p)) (Fin 0) ps"

definition sectorMap_step_in ::
  "arith \<Rightarrow> (string \<times> number \<times> nat) list \<Rightarrow> Position \<Rightarrow> (string \<times> number \<times> nat) list" where
  "sectorMap_step_in A m position =
     (let existing = (case map_of m (sector position) of None \<Rightarrow> (Fin 0, 0) | Some e \<Rightarrow> e)
      in AList.update (sector position)
           (fp_add A (fst existing) (marketValue position), snd existing + 1) m)"

definition calculateSectorAllocations_in :: "arith \<Rightarrow> Position list \<Rightarrow> SectorAllocation list" where
  "calculateSectorAllocations_in A ps =
     (let sectorMap = foldl (sectorMap_step_in A) [] ps;
          totalValue = currentValue_in A ps
      in js_sort (\<lambda>a b. fp_sub A (sa_value b) (sa_value a))
           (map (\<lambda>(sector, data).
                   \<lparr> sa_sector = sector, sa_value = fst data,
                     sa_percentage = fp_mul A (fp_div A (fst data) totalValue) (Fin 100),
                     sa_count = snd data \<rparr>) sectorMap))"

section \<open>The snapshot generator\<close>

text \<open>
  \<open>generateMockHistoricalSnapshots\<close> reads the clock and \<open>Math.random()\<close>. Both are
  parameters here: \<open>dateAgo i\<close> is the date \<open>i\<close> days before today, and \<open>random k\<close> is the
  result of the \<open>k\<close>-th call of \<open>Math.random()\<close>, a real in \<open>[0, 1)\<close>. Each pass of the loop
  calls it twice, first for the growth factor, then for the cash balance.
\<close>

definition daysBack :: nat where
  "daysBack = 365"

definition growthFactor :: "nat \<Rightarrow> real \<Rightarrow> number" where
  "growthFactor i r =
     js_add (js_add (Fin 1) (js_mul (Fin (real (daysBack - i))) (Fin (3 / 10000))))
       (js_mul (js_sub (Fin r) (Fin (1 / 2))) (Fin (2 / 100)))"

definition snapshot_at ::
  "(nat \<Rightarrow> number) \<Rightarrow> (nat \<Rightarrow> real) \<Rightarrow> Position list \<Rightarrow> nat \<Rightarrow> PortfolioSnapshot" where
  "snapshot_at dateAgo random ps i =
     (let g = growthFactor i (random (2 * (daysBack - i)));
          snapshotValue = js_div (currentValue ps) g
      in \<lparr> snap_date = dateAgo i,
           totalValue = snapshotValue,
           cashBalance = js_add (Fin 5000)
             (js_mul (Fin (random (2 * (daysBack - i) + 1))) (Fin 2000)),
           positions = map (\<lambda>p. p\<lparr> currentPrice := js_div (currentPrice p) g,
                                     marketValue := js_div (marketValue p) g \<rparr>) ps \<rparr>)"

text \<open>\<open>for (let i = daysBack; i >= 0; i--)\<close>: \<open>i\<close> runs from 365 down to 0.\<close>

definition generateMockHistoricalSnapshots ::
  "(nat \<Rightarrow> number) \<Rightarrow> (nat \<Rightarrow> real) \<Rightarrow> Position list \<Rightarrow> PortfolioSnapshot list" where
  "generateMockHistoricalSnapshots dateAgo random ps =
     map (snapshot_at dateAgo random ps) (rev [0..<Suc daysBack])"

text \<open>
  The generator over an arbitrary arithmetic. \<open>daysBack - i\<close> is a subtraction of numbers
  in the source; \<open>0.0003\<close>, \<open>0.5\<close> and \<open>0.02\<close> are decimal literals.
\<close>

definition growthFactor_in :: "arith \<Rightarrow> nat \<Rightarrow> real \<Rightarrow> number" where
  "growthFactor_in A i r =
     fp_add A
       (fp_add A (Fin 1)
          (fp_mul A (fp_sub A (Fin (real daysBack)) (Fin (real i))) (fp_lit A (3 / 10000))))
       (fp_mul A (fp_sub A (Fin r) (fp_lit A (1 / 2))) (fp_lit A (2 / 100)))"

definition snapshot_at_in ::
  "arith \<Rightarrow> (nat \<Rightarrow> number) \<Rightarrow> (nat \<Rightarrow> real) \<Rightarrow> Position list \<Rightarrow> nat \<Rightarrow> PortfolioSnapshot" where
  "snapshot_at_in A dateAgo random ps i =
     (let g = growthFactor_in A i (random (2 * (daysBack - i)));
          snapshotValue = fp_div A (currentValue_in A ps) g
      in \<lparr> snap_date = dateAgo i,
           totalValue = snapshotValue,
           cashBalance = fp_add A (Fin 5000)
             (fp_mul A (Fin (random (2 * (daysBack - i) + 1))) (Fin 2000)),
           positions = map (\<lambda>p. p\<lparr> currentPrice := fp_div A (currentPrice p) g,
                                     marketValue := fp_div A (marketValue p) g \<rparr>) ps \<rparr>)"

definition generateMockHistoricalSnapshots_in ::
  "arith \<Rightarrow> (nat \<Rightarrow> number) \<Rightarrow> (nat \<Rightarrow> real) \<Rightarrow> Position list \<Rightarrow> PortfolioSnapshot list" where
  "generateMockHistoricalSnapshots_in A dateAgo random ps =
     map (snapshot_at_in A dateAgo random ps) (rev [0..<Suc daysBack])"

section \<open>Transaction analytics (the transactions page)\<close>

text \<open>
  Strings are byte strings; \<open>toLowerCase\<close> is modelled on ASCII letters. \<open>js_includes\<close> is
  \<open>String.prototype.includes\<close>: the argument occurs as a contiguous substring.
\<close>

definition toLowerCase_char :: "char \<Rightarrow> char" where
  "toLowerCase_char c =
     (if CHR ''A'' \<le> c \<and> c \<le> CHR ''Z'' then char_of (of_char c + (32::nat)) else c)"

definition toLowerCase :: "string \<Rightarrow> string" where
  "toLowerCase s = map toLowerCase_char s"

fun js_includes :: "string \<Rightarrow> string \<Rightarrow> bool" where
  "js_includes [] q = (q = [])"
| "js_includes (c # cs) q = (prefix q (c # cs) \<or> js_includes cs q)"

text \<open>
  The filter state of the page: \<open>filterType\<close> is \<open>'all'\<close> or a transaction type,
  \<open>filterSymbol\<close> is \<open>'all'\<close> or a symbol, \<open>searchQuery\<close>, \<open>dateFrom\<close> and \<open>dateTo\<close> are
  strings, empty when unset. \<open>Date_parse s\<close> is the time value of \<open>new Date(s)\<close>, \<open>NaN\<close> for
  an unparseable string; it is a parameter.
\<close>

datatype TransactionType = all_types | of_type TxnType

definition matchesFilters ::
  "(string \<Rightarrow> number) \<Rightarrow> TransactionType \<Rightarrow> string \<Rightarrow> string \<Rightarrow> string \<Rightarrow> string \<Rightarrow>
   Transaction \<Rightarrow> bool" where
  "matchesFilters Date_parse filterType filterSymbol searchQuery dateFrom dateTo transaction =
     (let matchesType = (filterType = all_types \<or> of_type (txn_type transaction) = filterType);
          matchesSymbol = (filterSymbol = ''all'' \<or> txn_symbol transaction = filterSymbol);
          matchesSearch = (searchQuery = [] \<or>
            js_includes (toLowerCase (txn_symbol transaction)) (toLowerCase searchQuery) \<or>
            js_includes (toLowerCase (txn_id transaction)) (toLowerCase searchQuery));
          transactionDate = txn_date transaction;
          matchesDateFrom = (dateFrom = [] \<or> js_ge transactionDate (Date_parse dateFrom));
          matchesDateTo = (dateTo = [] \<or> js_le transactionDate (Date_parse dateTo))
      in matchesType \<and> matchesSymbol \<and> matchesSearch \<and> matchesDateFrom \<and> matchesDateTo)"

definition filteredTransactions ::
  "(string \<Rightarrow> number) \<Rightarrow> TransactionType \<Rightarrow> string \<Rightarrow> string \<Rightarrow> string \<Rightarrow> string \<Rightarrow>
   Transaction list \<Rightarrow> Transaction list" where
  "filteredTransactions Date_parse filterType filterSymbol searchQuery dateFrom dateTo transactions =
     filter (matchesFilters Date_parse filterType filterSymbol searchQuery dateFrom dateTo)
       transactions"

text \<open>
  \<open>symbolVolume\<close> is a plain object used as a dictionary. Its own properties are an
  association list in creation order. A plain object inherits the properties of
  \<open>Object.prototype\<close> (\<open>objectPrototypeKeys\<close>), all of them functions or objects, hence
  truthy. So \<open>!acc[t.symbol]\<close> holds for a key that is neither own nor inherited, and for
  an own \<open>0\<close> or \<open>NaN\<close>; the entry is then set to \<open>0\<close>. In \<open>acc[t.symbol] += t.total\<close> an
  own number is added to; an inherited function or an own string is concatenated with the
  number, which gives a string that is not a numeral (\<open>Text\<close>), stored as an own property,
  except under the key \<open>__proto__\<close>, whose setter ignores a string. The addition is that
  of the arithmetic \<open>A\<close>.
\<close>

definition objectPrototypeKeys :: "string list" where
  "objectPrototypeKeys =
     [''constructor'', ''hasOwnProperty'', ''isPrototypeOf'', ''propertyIsEnumerable'',
      ''toLocaleString'', ''toString'', ''valueOf'', ''__proto__'', ''__defineGetter__'',
      ''__defineSetter__'', ''__lookupGetter__'', ''__lookupSetter__'']"

datatype property = Number number | Text

fun to_number :: "property \<Rightarrow> number" where
  "to_number (Number v) = v"
| "to_number Text = NaN"

definition symbolVolume_step ::
  "arith \<Rightarrow> (string \<times> property) list \<Rightarrow> Transaction \<Rightarrow> (string \<times> property) list" where
  "symbolVolume_step A acc t =
     (let falsy = (case map_of acc (txn_symbol t) of
                     None \<Rightarrow> txn_symbol t \<notin> set objectPrototypeKeys
                   | Some (Number v) \<Rightarrow> \<not> truthy v
                   | Some Text \<Rightarrow> False);
          acc1 = (if falsy then AList.update (txn_symbol t) (Number (Fin 0)) acc else acc)
      in case map_of acc1 (txn_symbol t) of
           Some (Number v) \<Rightarrow> AList.update (txn_symbol t) (Number (fp_add A v (total t))) acc1
         | Some Text \<Rightarrow> AList.update (txn_symbol t) Text acc1
         | None \<Rightarrow> if txn_symbol t = ''__proto__'' then acc1
                   else AList.update (txn_symbol t) Text acc1)"

definition symbolVolume :: "arith \<Rightarrow> Transaction list \<Rightarrow> (string \<times> property) list" where
  "symbolVolume A transactions = foldl (symbolVolume_step A) [] transactions"

text \<open>
  \<open>Object.entries\<close> lists the own properties in property order: first the keys that are
  array indices (canonical decimal numerals below \<open>2^32 - 1\<close>) in ascending numeric order,
  then the other keys in creation order.
\<close>

definition digit_value :: "string \<Rightarrow> nat" where
  "digit_value s = foldl (\<lambda>n c. 10 * n + (of_char c - 48)) 0 s"

definition isArrayIndex :: "string \<Rightarrow> bool" where
  "isArrayIndex s =
     (s \<noteq> [] \<and> list_all (\<lambda>c. CHR ''0'' \<le> c \<and> c \<le> CHR ''9'') s \<and>
      (s = ''0'' \<or> hd s \<noteq> CHR ''0'') \<and> digit_value s < 2 ^ 32 - 1)"

definition Object_entries :: "(string \<times> 'v) list \<Rightarrow> (string \<times> 'v) list" where
  "Object_entries obj =
     sort_key (\<lambda>e. digit_value (fst e)) (filter (\<lambda>e. isArrayIndex (fst e)) obj)
       @ filter (\<lambda>e. \<not> isArrayIndex (fst e)) obj"

record TradedStock =
  ts_symbol :: string
  ts_total :: property

text \<open>In the comparator \<open>b.total - a.total\<close> a string operand converts to \<open>NaN\<close>.\<close>

definition topTradedStocks :: "arith \<Rightarrow> Transaction list \<Rightarrow> TradedStock list" where
  "topTradedStocks A transactions =
     take 5 (js_sort (\<lambda>a b. fp_sub A (to_number (ts_total b)) (to_number (ts_total a)))
               (map (\<lambda>(symbol, total). \<lparr> ts_symbol = symbol, ts_total = total \<rparr>)
                    (Object_entries (symbolVolume A transactions))))"

section \<open>Reference definitions\<close>

text \<open>
  The quantities that the specification names, over the reals, for comparison with what
  the code computes.
\<close>






text \<open>
  Max drawdown as the specification defines it: the running peak at position \<open>i\<close> is the
  largest value among the first \<open>i + 1\<close>, the drawdown there is the percentage decline from
  it, and the result is the largest drawdown of the series.
\<close>

definition running_peak :: "real list \<Rightarrow> nat \<Rightarrow> real" where
  "running_peak vs i = Max (set (take (Suc i) vs))"

definition drawdown_at :: "real list \<Rightarrow> nat \<Rightarrow> real" where
  "drawdown_at vs i = (running_peak vs i - vs ! i) / running_peak vs i * 100"

definition max_drawdown_spec :: "real list \<Rightarrow> real" where
  "max_drawdown_spec vs = Max (set (map (drawdown_at vs) [0..<length vs]))"


text \<open>
  Traded volume of a symbol in an arithmetic: the sum of \<open>total\<close> over all its
  transactions, of any type, added up in ledger order.
  \<open>first_seen\<close> lists the distinct elements of a list in order of first appearance.
\<close>

definition volume_in :: "arith \<Rightarrow> Transaction list \<Rightarrow> string \<Rightarrow> number" where
  "volume_in A txs s =
     foldl (\<lambda>sum t. fp_add A sum (total t)) (Fin 0) (filter (\<lambda>t. txn_symbol t = s) txs)"

definition first_seen :: "'a list \<Rightarrow> 'a list" where
  "first_seen xs = rev (remdups (rev xs))"

text \<open>Ties in volume broken by the lexical order of the symbols, as the specification has it.\<close>

definition ties_lexical :: "TradedStock list \<Rightarrow> bool" where
  "ties_lexical r =
     sorted_wrt (\<lambda>a b. ts_total a = ts_total b \<longrightarrow> ts_symbol a \<le> ts_symbol b) r"

text \<open>
  Auxiliary forms of the drawdown scan over the reals: the drawdowns seen when scanning a
  series with a given starting peak, and the peak reached at position \<open>i\<close>.
\<close>

fun drawdowns_from :: "real \<Rightarrow> real list \<Rightarrow> real list" where
  "drawdowns_from pk [] = []"
| "drawdowns_from pk (v # vs) = (max pk v - v) / max pk v * 100 # drawdowns_from (max pk v) vs"

definition peak_from :: "real \<Rightarrow> real list \<Rightarrow> nat \<Rightarrow> real" where
  "peak_from pk vs i = Max (insert pk (set (take (Suc i) vs)))"

text \<open>The sum of the market values of a list of positions, over the reals.\<close>

definition market_value_sum :: "Position list \<Rightarrow> real" where
  "market_value_sum ps = sum_list (map (\<lambda>p. real_of (marketValue p)) ps)"

section \<open>Sample data\<close>

definition snap :: "real \<Rightarrow> real \<Rightarrow> PortfolioSnapshot" where
  "snap d v = \<lparr> snap_date = Fin d, totalValue = Fin v, cashBalance = Fin 0, positions = [] \<rparr>"

definition pos :: "string \<Rightarrow> string \<Rightarrow> AssetType \<Rightarrow> real \<Rightarrow> real \<Rightarrow> real \<Rightarrow> Position" where
  "pos s sec ty q cb mv =
     \<lparr> symbol = s, name = s, quantity = Fin q, costBasis = Fin cb,
       currentPrice = Fin (mv / q), marketValue = Fin mv, gainLoss = Fin (mv - q * cb),
       gainLossPercent = Fin ((mv - q * cb) / (q * cb) * 100), sector = sec, assetType = ty \<rparr>"

definition txn :: "string \<Rightarrow> real \<Rightarrow> string \<Rightarrow> TxnType \<Rightarrow> real \<Rightarrow> Transaction" where
  "txn i d s ty tot =
     \<lparr> txn_id = i, txn_date = Fin d, txn_symbol = s, txn_type = ty, txn_quantity = Fin 1,
       price = Fin tot, total = Fin tot, fees = Fin (tot / 1000) \<rparr>"

definition ledger :: "Transaction list" where
  "ledger =
     [txn ''txn-0'' 3 ''AAPL'' buy 1000, txn ''txn-1'' 2 ''MSFT'' sell 500,
      txn ''txn-2'' 1 ''AAPL'' sell 50]"

definition ledger_tie :: "Transaction list" where
  "ledger_tie = [txn ''txn-0'' 2 ''B'' buy 10, txn ''txn-1'' 1 ''A'' sell 10]"

definition portfolio :: "Position list" where
  "portfolio =
     [pos ''AAA'' ''Tech'' stock 10 100 1100, pos ''BBB'' ''Energy'' etf 2 40 100,
      pos ''CCC'' ''Tech'' stock 1 500 800]"

text \<open>
  Positions and a ledger whose amounts are the doubles nearest 0.1, 1.1, 0.3 and 0.2, for
  the arithmetic of the program.
\<close>

definition rounding_positions :: "Position list" where
  "rounding_positions =
     [pos ''A'' ''X'' stock 1 1 (3602879701896397 / 36028797018963968),
      pos ''B'' ''Y'' stock 1 1 (3602879701896397 / 36028797018963968),
      pos ''C'' ''X'' stock 1 1 (2476979795053773 / 2251799813685248)]"

definition two_positions :: "Position list" where
  "two_positions = [pos ''AAA'' ''Tech'' stock 1 100 110, pos ''BBB'' ''Energy'' etf 2 40 100]"

definition ledger_rounding :: "Transaction list" where
  "ledger_rounding =
     [txn ''txn-0'' 3 ''A'' buy (5404319552844595 / 18014398509481984),
      txn ''txn-1'' 2 ''B'' buy (3602879701896397 / 36028797018963968),
      txn ''txn-2'' 1 ''B'' sell (3602879701896397 / 18014398509481984)]"

section \<open>Facts about numbers and arrays\<close>

lemma Math_pow_Fin [simp]: "Math_pow (Fin a) n = Fin (a ^ n)"
  by (cases n) simp_all

lemma js_sub_Fin [simp]: "js_sub (Fin a) (Fin b) = Fin (a - b)"
  by (simp add: js_sub_def)

lemma js_gt_Fin [simp]: "js_gt (Fin a) (Fin b) = (b < a)"
  by (simp add: js_gt_def)

lemma js_ge_Fin [simp]: "js_ge (Fin a) (Fin b) = (b \<le> a)"
  by (auto simp: js_ge_def js_le_def)

lemma js_le_Fin [simp]: "js_le (Fin a) (Fin b) = (a \<le> b)"
  by (auto simp: js_le_def)

lemma js_index_Nil [simp]: "js_index [] i = None"
  by (simp add: js_index_def)

lemma js_index_Cons [simp]:
  "js_index (x # xs) i = (if i = 0 then Some x else if i < 0 then None else js_index xs (i - 1))"
  by (auto simp: js_index_def nth_Cons' nat_diff_distrib)

lemmas metrics_defs =
  calculateMockMetrics_def currentValue_def totalCost_def yesterdayValue_def monthAgoValue_def
  valueBack_def ytdSnapshot_def volatility_of_def variance_def avgReturn_def js_sum_def
  riskFreeRate_def maxDrawdown_of_def drawdown_step_def snap_def pos_def Let_def

section \<open>When the metrics engine fails\<close>

lemma calculateMockMetrics_Nil: "calculateMockMetrics yearStart ps [] = Inl TypeError"
  by (simp add: calculateMockMetrics_def ytdSnapshot_def Let_def)

lemma calculateMockMetrics_Cons: "\<exists>m. calculateMockMetrics yearStart ps (s # ss) = Inr m"
  by (simp add: calculateMockMetrics_def ytdSnapshot_def Let_def split: option.splits)

lemma calculateMockMetrics_totalReturnPercent:
  "calculateMockMetrics yearStart ps snapshots = Inr m \<Longrightarrow>
   totalReturnPercent m =
     js_mul (js_div (js_sub (currentValue ps) (totalCost ps)) (totalCost ps)) (Fin 100)"
  by (auto simp: calculateMockMetrics_def Let_def split: option.splits)

lemma variance_Nil: "variance [] = NaN"
  by (simp add: variance_def)

lemma volatility_of_single: "volatility_of [s] = NaN"
  by (simp add: volatility_of_def variance_Nil)

lemma calculateMockMetrics_volatility:
  "calculateMockMetrics yearStart ps snapshots = Inr m \<Longrightarrow> volatility m = volatility_of snapshots"
  by (auto simp: calculateMockMetrics_def Let_def split: option.splits)

text \<open>
  Claim C1 says that the metrics engine fails with \<open>InvalidInput\<close> on an empty or an
  unordered snapshot series, and that zero denominators give a defined sentinel. The code
  has no validation and no guard. Here a series whose dates run backwards (day 2, then
  day 1) is accepted, and the division by the zero volatility yields \<open>Infinity\<close>.
\<close>

theorem calculateMockMetrics_unordered_counterexample:
  "calculateMockMetrics (Fin 0) [pos ''AAA'' ''Tech'' stock 1 100 110] [snap 2 100, snap 1 110]
   = Inr \<lparr> totalReturn = Fin 10, totalReturnPercent = Fin 10,
           dailyReturn = Fin 10, dailyReturnPercent = Fin 10,
           monthlyReturn = Fin 0, monthlyReturnPercent = Fin 0,
           ytdReturn = Fin 10, ytdReturnPercent = Fin 10,
           volatility = Fin 0, sharpeRatio = PosInf, maxDrawdown = Fin 0,
           beta = Fin (95 / 100) \<rparr>"
  by (simp add: metrics_defs)

text \<open>
  C1, as the code has it: \<open>calculateMockMetrics\<close> throws exactly when the snapshot series
  is empty (a \<open>TypeError\<close>, from reading \<open>totalValue\<close> of \<open>undefined\<close>); on every non-empty
  series, ordered or not, it returns a metrics record. Zero denominators are not guarded
  and do not throw: when the aggregate cost basis is 0 and the current value \<open>c\<close> is
  finite, the record's \<open>totalReturnPercent\<close> is \<open>Infinity\<close>, \<open>-Infinity\<close> or \<open>NaN\<close> as \<open>c\<close> is
  positive, negative or zero; and for a single snapshot its \<open>volatility\<close> is \<open>NaN\<close>.
\<close>

theorem calculateMockMetrics_throws_iff_empty:
  "(calculateMockMetrics yearStart ps snapshots = Inl TypeError) = (snapshots = []) \<and>
   ((\<exists>m. calculateMockMetrics yearStart ps snapshots = Inr m) = (snapshots \<noteq> [])) \<and>
   (\<forall>m. calculateMockMetrics yearStart ps snapshots = Inr m \<longrightarrow>
      (\<forall>c. totalCost ps = Fin 0 \<and> currentValue ps = Fin c \<longrightarrow>
         totalReturnPercent m = (if 0 < c then PosInf else if c < 0 then NegInf else NaN)) \<and>
      (length snapshots = 1 \<longrightarrow> volatility m = NaN))"
proof -
  have 1: "(calculateMockMetrics yearStart ps snapshots = Inl TypeError) = (snapshots = []) \<and>
   ((\<exists>m. calculateMockMetrics yearStart ps snapshots = Inr m) = (snapshots \<noteq> []))"
  proof (cases snapshots)
    case Nil
    then show ?thesis by (simp add: calculateMockMetrics_Nil)
  next
    case (Cons s ss)
    then show ?thesis using calculateMockMetrics_Cons [of yearStart ps s ss] by auto
  qed
  have 2: "totalReturnPercent m = (if 0 < c then PosInf else if c < 0 then NegInf else NaN)"
    if "calculateMockMetrics yearStart ps snapshots = Inr m"
      "totalCost ps = Fin 0" "currentValue ps = Fin c" for m c
    using calculateMockMetrics_totalReturnPercent [OF that(1)] that(2,3) by simp
  have 3: "volatility m = NaN"
    if "calculateMockMetrics yearStart ps snapshots = Inr m" "length snapshots = 1" for m
  proof -
    from that(2) obtain s where "snapshots = [s]" by (cases snapshots) auto
    with calculateMockMetrics_volatility [OF that(1)] show ?thesis
      by (simp add: volatility_of_single)
  qed
  from 1 2 3 show ?thesis by blast
qed

theorem calculateMockMetrics_throws_iff_empty_witness:
  "calculateMockMetrics (Fin 0) [] [] = Inl TypeError \<and>
   (\<exists>m. calculateMockMetrics (Fin 0) [] [snap 1 100] = Inr m \<and>
        totalReturnPercent m = NaN \<and> volatility m = NaN)"
proof -
  have c: "totalCost [] = Fin 0" "currentValue [] = Fin 0"
    by (simp_all add: totalCost_def currentValue_def)
  from calculateMockMetrics_throws_iff_empty [of "Fin 0" "[]" "[]"] have a: "calculateMockMetrics (Fin 0) [] [] = Inl TypeError"
    by simp
  from calculateMockMetrics_throws_iff_empty [of "Fin 0" "[]" "[snap 1 100]"] c
  have "\<exists>m. calculateMockMetrics (Fin 0) [] [snap 1 100] = Inr m \<and>
        totalReturnPercent m = NaN \<and> volatility m = NaN"
    by auto
  with a show ?thesis by blast
qed

section \<open>Monthly return\<close>




section \<open>Sharpe ratio\<close>

text \<open>
  Claim C6 asks for a defined sentinel, not infinity, when the volatility is zero. Two
  snapshots give a single daily return, hence a zero volatility, and the code divides the
  excess return by it.
\<close>

theorem sharpe_ratio_counterexample:
  "map_sum id (\<lambda>m. (volatility m, sharpeRatio m))
     (calculateMockMetrics (Fin 0) [pos ''AAA'' ''Tech'' stock 1 100 110]
        [snap 1 100, snap 2 110])
   = Inr (Fin 0, PosInf)"
  by (simp add: metrics_defs)

text \<open>
  C6, as the code has it: the Sharpe ratio is
  \<open>(totalReturnPercent / 100 - 0.04) / (volatility / 100)\<close> in JavaScript arithmetic, the
  risk-free rate being the constant 0.04. For finite operands and a nonzero volatility
  this is the quotient of the reals; when the volatility is zero the result is
  \<open>Infinity\<close>, \<open>-Infinity\<close> or \<open>NaN\<close>, as the excess return is positive, negative or zero.
\<close>

theorem sharpe_ratio_amended:
  "snapshots \<noteq> [] \<Longrightarrow>
   \<exists>m. calculateMockMetrics yearStart ps snapshots = Inr m \<and>
     sharpeRatio m =
       js_div (js_sub (js_div (totalReturnPercent m) (Fin 100)) (Fin (4 / 100)))
         (js_div (volatility m) (Fin 100)) \<and>
     (\<forall>t v. totalReturnPercent m = Fin t \<and> volatility m = Fin v \<longrightarrow>
        sharpeRatio m =
          (if v \<noteq> 0 then Fin ((t / 100 - 4 / 100) / (v / 100))
           else if 4 / 100 < t / 100 then PosInf
           else if t / 100 < 4 / 100 then NegInf else NaN))"
  by (cases snapshots)
     (auto simp: calculateMockMetrics_def ytdSnapshot_def riskFreeRate_def Let_def
        split: option.splits)

theorem sharpe_ratio_amended_witness:
  "\<exists>m. calculateMockMetrics (Fin 0) [pos ''AAA'' ''Tech'' stock 1 100 110]
          [snap 1 100, snap 2 110] = Inr m \<and>
       sharpeRatio m =
         js_div (js_sub (js_div (totalReturnPercent m) (Fin 100)) (Fin (4 / 100)))
           (js_div (volatility m) (Fin 100))"
  using sharpe_ratio_amended
    [of "[snap 1 100, snap 2 110]" "Fin 0" "[pos ''AAA'' ''Tech'' stock 1 100 110]"]
  by auto

section \<open>Max drawdown\<close>

lemma drawdown_step_Fin:
  assumes "0 < pk" "0 < v" "totalValue s = Fin v"
  shows "drawdown_step (Fin md, Fin pk) s =
         (Fin (max md ((max pk v - v) / max pk v * 100)), Fin (max pk v))"
  using assms by (auto simp: drawdown_step_def Let_def max_def)

lemma foldl_drawdown_step:
  assumes "map totalValue snapshots = map Fin vs" "\<forall>v\<in>set vs. 0 < v" "0 < pk"
  shows "foldl drawdown_step (Fin md, Fin pk) snapshots =
         (Fin (Max (insert md (set (drawdowns_from pk vs)))), Fin (Max (insert pk (set vs))))"
  using assms
proof (induction snapshots arbitrary: vs md pk)
  case Nil
  then show ?case by simp
next
  case (Cons s ss)
  then obtain v vs' where vs: "vs = v # vs'" "totalValue s = Fin v" "map totalValue ss = map Fin vs'"
    by (cases vs) auto
  with Cons.prems have pos: "0 < v" "\<forall>v\<in>set vs'. 0 < v" "0 < max pk v" by auto
  let ?d = "(max pk v - v) / max pk v * 100"
  have "foldl drawdown_step (Fin md, Fin pk) (s # ss) =
        foldl drawdown_step (Fin (max md ?d), Fin (max pk v)) ss"
    using drawdown_step_Fin [OF \<open>0 < pk\<close> \<open>0 < v\<close> vs(2)] by simp
  also have "\<dots> = (Fin (Max (insert (max md ?d) (set (drawdowns_from (max pk v) vs')))),
                     Fin (Max (insert (max pk v) (set vs'))))"
    using Cons.IH [OF vs(3) pos(2) pos(3)] .
  also have "Max (insert (max md ?d) (set (drawdowns_from (max pk v) vs'))) =
             Max (insert md (set (drawdowns_from pk vs)))"
    by (cases "drawdowns_from (max pk v) vs' = []") (simp_all add: vs(1) max.assoc max.commute max.left_commute)
  also have "Max (insert (max pk v) (set vs')) = Max (insert pk (set vs))"
    by (cases "vs' = []") (simp_all add: vs(1) max.assoc)
  finally show ?case .
qed

lemma peak_from_0: "peak_from pk (v # vs) 0 = max pk v"
  by (simp add: peak_from_def max.commute)

lemma peak_from_Suc: "peak_from pk (v # vs) (Suc i) = peak_from (max pk v) vs i"
  by (cases "take (Suc i) vs = []") (simp_all add: peak_from_def max.assoc)

lemma drawdowns_from_running:
  "drawdowns_from pk vs =
   map (\<lambda>i. (peak_from pk vs i - vs ! i) / peak_from pk vs i * 100) [0..<length vs]"
proof (induction vs arbitrary: pk)
  case Nil
  then show ?case by simp
next
  case (Cons v vs)
  have "map (\<lambda>i. (peak_from pk (v # vs) i - (v # vs) ! i) / peak_from pk (v # vs) i * 100)
          [0..<length (v # vs)] =
        (peak_from pk (v # vs) 0 - v) / peak_from pk (v # vs) 0 * 100 #
        map (\<lambda>i. (peak_from pk (v # vs) (Suc i) - vs ! i) / peak_from pk (v # vs) (Suc i) * 100)
          [0..<length vs]"
    by (simp add: upt_conv_Cons map_Suc_upt [symmetric] del: upt_Suc)
  then show ?case
    by (simp only: drawdowns_from.simps Cons.IH peak_from_0 peak_from_Suc)
qed

lemma peak_from_hd: "vs \<noteq> [] \<Longrightarrow> peak_from (hd vs) vs i = running_peak vs i"
  by (cases vs) (simp_all add: peak_from_def running_peak_def)

lemma drawdowns_from_hd:
  assumes "vs \<noteq> []"
  shows "drawdowns_from (hd vs) vs = map (drawdown_at vs) [0..<length vs]"
  by (simp add: drawdowns_from_running drawdown_at_def peak_from_hd [OF assms])

lemma calculateMockMetrics_maxDrawdown:
  "calculateMockMetrics yearStart ps (s # ss) = Inr m \<Longrightarrow>
   maxDrawdown m = maxDrawdown_of s (s # ss)"
  by (auto simp: calculateMockMetrics_def ytdSnapshot_def Let_def split: option.splits)

lemma drawdowns_from_bounds:
  assumes "0 < pk" "\<forall>v\<in>set vs. 0 < v" "d \<in> set (drawdowns_from pk vs)"
  shows "0 \<le> d \<and> d \<le> 100"
  using assms
proof (induction vs arbitrary: pk)
  case Nil
  then show ?case by simp
next
  case (Cons v vs)
  have "0 < max pk v" using Cons.prems by auto
  moreover have "(max pk v - v) / max pk v * 100 \<le> 100" "0 \<le> (max pk v - v) / max pk v * 100"
    using Cons.prems by (auto simp: divide_le_eq)
  ultimately show ?case using Cons by auto
qed

lemma drawdowns_from_sorted:
  assumes "sorted vs" "\<forall>v\<in>set vs. pk \<le> v" "\<forall>v\<in>set vs. 0 < v" "d \<in> set (drawdowns_from pk vs)"
  shows "d = 0"
  using assms
proof (induction vs arbitrary: pk)
  case Nil
  then show ?case by simp
next
  case (Cons v vs)
  have "max pk v = v" using Cons.prems by (auto simp: max_def)
  with Cons show ?case by auto
qed

text \<open>
  Claim C4: for a non-empty snapshot series whose values are positive (\<open>vs\<close>, the values
  in order), the max drawdown returned by \<open>calculateMockMetrics\<close> is the largest, over all
  positions of the series, of (running peak - value) / running peak * 100. It lies between
  0 and 100, and it is 0 for a series that never decreases.
\<close>

theorem maxDrawdown_is_max_running_drawdown:
  assumes "snapshots \<noteq> []"
    and "map totalValue snapshots = map Fin vs"
    and "\<forall>v\<in>set vs. 0 < v"
  shows "\<exists>m. calculateMockMetrics yearStart ps snapshots = Inr m \<and>
           maxDrawdown m = Fin (max_drawdown_spec vs) \<and>
           0 \<le> max_drawdown_spec vs \<and> max_drawdown_spec vs \<le> 100 \<and>
           (sorted vs \<longrightarrow> maxDrawdown m = Fin 0)"
proof -
  from assms obtain s ss where snaps: "snapshots = s # ss" by (cases snapshots) auto
  with assms(2) obtain v vs' where vs: "vs = v # vs'" "totalValue s = Fin v" by (cases vs) auto
  then have ne: "vs \<noteq> []" and hd: "hd vs = v" and pos: "0 < v" using assms(3) by auto
  obtain m where m: "calculateMockMetrics yearStart ps snapshots = Inr m"
    "maxDrawdown m = maxDrawdown_of s snapshots"
    using calculateMockMetrics_Cons [of yearStart ps s ss] calculateMockMetrics_maxDrawdown [of yearStart ps s ss]
    unfolding snaps by blast
  have dne: "drawdowns_from v vs \<noteq> []" by (simp add: vs(1))
  have "maxDrawdown_of s snapshots = Fin (Max (insert 0 (set (drawdowns_from v vs))))"
    unfolding maxDrawdown_of_def vs(2)
    using foldl_drawdown_step [OF assms(2) assms(3) pos] by simp
  moreover have zero_in: "0 \<in> set (drawdowns_from v vs)"
    by (simp add: vs(1))
  ultimately have md: "maxDrawdown m = Fin (Max (set (drawdowns_from v vs)))"
    using m(2) by (simp add: insert_absorb)
  have spec: "max_drawdown_spec vs = Max (set (drawdowns_from v vs))"
    using drawdowns_from_hd [OF ne] by (simp add: max_drawdown_spec_def hd)
  have bounds: "0 \<le> d \<and> d \<le> 100" if "d \<in> set (drawdowns_from v vs)" for d
    using drawdowns_from_bounds [OF pos assms(3) that] .
  have in_set: "Max (set (drawdowns_from v vs)) \<in> set (drawdowns_from v vs)"
    using dne by (intro Max_in) auto
  have sorted0: "Max (set (drawdowns_from v vs)) = 0" if "sorted vs"
  proof -
    have "\<forall>x\<in>set vs. v \<le> x" using that vs(1) by auto
    from drawdowns_from_sorted [OF that this assms(3) in_set] show ?thesis .
  qed
  from m(1) md spec bounds [OF in_set] sorted0 show ?thesis by auto
qed

text \<open>The scenario of the specification: values 100, 120, 90, 130 give 25.\<close>

theorem maxDrawdown_is_max_running_drawdown_witness:
  "\<exists>m. calculateMockMetrics (Fin 0) [] [snap 1 100, snap 2 120, snap 3 90, snap 4 130] = Inr m \<and>
       maxDrawdown m = Fin 25"
proof -
  have 1: "[snap 1 100, snap 2 120, snap 3 90, snap 4 130] \<noteq> []" by simp
  have 2: "map totalValue [snap 1 100, snap 2 120, snap 3 90, snap 4 130] = map Fin [100, 120, 90, 130]"
    by (simp add: snap_def)
  have 3: "\<forall>v\<in>set [100, 120, 90, 130::real]. 0 < v" by simp
  have 4: "max_drawdown_spec [100, 120, 90, 130] = 25"
    by (simp add: max_drawdown_spec_def drawdown_at_def running_peak_def upt_rec_numeral)
  from maxDrawdown_is_max_running_drawdown [OF 1 2 3, of "Fin 0" "[]"] 4 show ?thesis by auto
qed

section \<open>Filtering transactions\<close>

lemma js_includes_sublist: "js_includes s q = sublist q s"
  by (induction s) (simp_all add: sublist_Cons_right)

text \<open>
  Claim C9: with no filter set (type and symbol \<open>'all'\<close>, empty search text and dates) the
  filter returns the transactions unchanged. For every filter state the result is a
  subsequence of the input in the original order, namely the transactions that satisfy
  all five predicates together; an unset filter matches everything, and the search text
  is looked for, after lower-casing both sides, as a substring of the symbol or of the id,
  so that two queries differing only in case select the same transactions.
\<close>

theorem filteredTransactions_identity_subseq_conj:
  "filteredTransactions D all_types ''all'' [] [] [] transactions = transactions \<and>
   subseq (filteredTransactions D ft fs q df dt transactions) transactions \<and>
   filteredTransactions D ft fs q df dt transactions =
     filter (\<lambda>t. (ft = all_types \<or> ft = of_type (txn_type t)) \<and>
                  (fs = ''all'' \<or> txn_symbol t = fs) \<and>
                  (q = [] \<or> sublist (toLowerCase q) (toLowerCase (txn_symbol t))
                          \<or> sublist (toLowerCase q) (toLowerCase (txn_id t))) \<and>
                  (df = [] \<or> js_ge (txn_date t) (D df)) \<and>
                  (dt = [] \<or> js_le (txn_date t) (D dt))) transactions \<and>
   (toLowerCase q = toLowerCase q' \<longrightarrow>
      filteredTransactions D ft fs q df dt transactions =
      filteredTransactions D ft fs q' df dt transactions)"
proof -
  have 1: "filteredTransactions D all_types ''all'' [] [] [] transactions = transactions"
    by (simp add: filteredTransactions_def matchesFilters_def)
  have 2: "subseq (filteredTransactions D ft fs q df dt transactions) transactions"
    by (simp add: filteredTransactions_def)
  have 3: "filteredTransactions D ft fs q df dt transactions =
     filter (\<lambda>t. (ft = all_types \<or> ft = of_type (txn_type t)) \<and>
                  (fs = ''all'' \<or> txn_symbol t = fs) \<and>
                  (q = [] \<or> sublist (toLowerCase q) (toLowerCase (txn_symbol t))
                          \<or> sublist (toLowerCase q) (toLowerCase (txn_id t))) \<and>
                  (df = [] \<or> js_ge (txn_date t) (D df)) \<and>
                  (dt = [] \<or> js_le (txn_date t) (D dt))) transactions"
    unfolding filteredTransactions_def matchesFilters_def Let_def js_includes_sublist
    by (rule filter_cong) auto
  have 4: "toLowerCase q = toLowerCase q' \<longrightarrow>
      filteredTransactions D ft fs q df dt transactions =
      filteredTransactions D ft fs q' df dt transactions"
  proof
    assume eq: "toLowerCase q = toLowerCase q'"
    then have "length q = length q'"
      unfolding toLowerCase_def by (rule map_eq_imp_length_eq)
    then have "(q = []) = (q' = [])" by auto
    with eq show "filteredTransactions D ft fs q df dt transactions =
      filteredTransactions D ft fs q' df dt transactions"
      by (auto simp: filteredTransactions_def matchesFilters_def intro!: filter_cong)
  qed
  from 1 2 3 4 show ?thesis by blast
qed

theorem filteredTransactions_identity_subseq_conj_witness:
  "toLowerCase ''AAPL'' = toLowerCase ''aapl'' \<and>
   filteredTransactions (\<lambda>s. NaN) all_types ''all'' ''AAPL'' [] [] ledger =
   filteredTransactions (\<lambda>s. NaN) all_types ''all'' ''aapl'' [] [] ledger \<and>
   filteredTransactions (\<lambda>s. NaN) all_types ''all'' ''aapl'' [] [] ledger = 
     [txn ''txn-0'' 3 ''AAPL'' buy 1000, txn ''txn-2'' 1 ''AAPL'' sell 50]"
proof -
  have h: "toLowerCase ''AAPL'' = toLowerCase ''aapl''"
    by code_simp
  have e: "filteredTransactions (\<lambda>s. NaN) all_types ''all'' ''aapl'' [] [] ledger = 
     [txn ''txn-0'' 3 ''AAPL'' buy 1000, txn ''txn-2'' 1 ''AAPL'' sell 50]"
    by code_simp
  from h e filteredTransactions_identity_subseq_conj [of "\<lambda>s. NaN" ledger all_types "''all''" "''AAPL''" "[]" "[]" "''aapl''"] show ?thesis
    by blast
qed

section \<open>Volatility\<close>














section \<open>Generated snapshots\<close>

lemma js_div_add_distrib:
  "0 < g \<Longrightarrow> js_div (js_add a b) (Fin g) = js_add (js_div a (Fin g)) (js_div b (Fin g))"
  by (cases a; cases b) (simp_all add: add_divide_distrib)

lemma growthFactor_pos:
  assumes "0 \<le> r" "r < 1"
  shows "\<exists>g. 0 < g \<and> growthFactor i r = Fin g"
proof -
  have "0 \<le> real (daysBack - i) * (3 / 10000)" by simp
  moreover have "- (1 / 100) \<le> (r - 1 / 2) * (2 / 100)" using assms by simp
  ultimately have "0 < 1 + real (daysBack - i) * (3 / 10000) + (r - 1 / 2) * (2 / 100)"
    by linarith
  then show ?thesis by (simp add: growthFactor_def)
qed

lemma foldl_marketValue_scaled:
  assumes "0 < g"
  shows "foldl (\<lambda>sum p. js_add sum (marketValue p)) (js_div a (Fin g))
           (map (\<lambda>p. p\<lparr> currentPrice := js_div (currentPrice p) (Fin g),
                         marketValue := js_div (marketValue p) (Fin g) \<rparr>) ps) =
         js_div (foldl (\<lambda>sum p. js_add sum (marketValue p)) a ps) (Fin g)"
  by (induction ps arbitrary: a) (simp_all add: js_div_add_distrib [OF assms, symmetric])

lemma currentValue_scaled:
  assumes "0 < g"
  shows "currentValue (map (\<lambda>p. p\<lparr> currentPrice := js_div (currentPrice p) (Fin g),
                                   marketValue := js_div (marketValue p) (Fin g) \<rparr>) ps) =
         js_div (currentValue ps) (Fin g)"
proof -
  have "js_div (Fin 0) (Fin g) = Fin 0" using assms by simp
  with foldl_marketValue_scaled [OF assms, of "Fin 0" ps] show ?thesis
    by (simp add: currentValue_def)
qed

lemma snapshot_at_consistent:
  assumes "\<forall>k. 0 \<le> random k \<and> random k < 1"
  shows "\<exists>g. 0 < g \<and>
           totalValue (snapshot_at dateAgo random ps i) = js_div (currentValue ps) (Fin g) \<and>
           map marketValue (positions (snapshot_at dateAgo random ps i)) =
             map (\<lambda>p. js_div (marketValue p) (Fin g)) ps \<and>
           map currentPrice (positions (snapshot_at dateAgo random ps i)) =
             map (\<lambda>p. js_div (currentPrice p) (Fin g)) ps \<and>
           totalValue (snapshot_at dateAgo random ps i) =
             currentValue (positions (snapshot_at dateAgo random ps i))"
proof -
  from assms obtain g where g: "0 < g" "growthFactor i (random (2 * (daysBack - i))) = Fin g"
    using growthFactor_pos by blast
  show ?thesis
    using g(1) by (intro exI [of _ g]) (simp add: snapshot_at_def g(2) currentValue_scaled o_def Let_def)
qed

section \<open>Grouping and sorting\<close>

subsection \<open>Grouping by repeated update\<close>

lemma first_seen_snoc:
  "first_seen (xs @ [x]) = (if x \<in> set xs then first_seen xs else first_seen xs @ [x])"
  by (simp add: first_seen_def)

lemma set_first_seen [simp]: "set (first_seen xs) = set xs"
  by (simp add: first_seen_def)

lemma distinct_first_seen [simp]: "distinct (first_seen xs)"
  by (simp add: first_seen_def)

lemma first_seen_Nil [simp]: "first_seen [] = []"
  by (simp add: first_seen_def)

lemma length_first_seen: "length (first_seen xs) = card (set xs)"
  using distinct_card [of "first_seen xs"] by simp

lemma update_tabulated:
  "distinct ks \<Longrightarrow>
   AList.update k v (map (\<lambda>j. (j, g j)) ks) =
   map (\<lambda>j. (j, (g(k := v)) j)) (if k \<in> set ks then ks else ks @ [k])"
  by (induction ks) auto

lemma map_of_tabulated:
  "map_of (map (\<lambda>j. (j, g j)) ks) k = (if k \<in> set ks then Some (g k) else None)"
  by (induction ks) auto

text \<open>
  A fold that, for each element, replaces the entry of the element's key by the summary of
  the elements of that key seen so far, builds the table of summaries per key, the keys
  in order of first appearance.
\<close>

lemma foldl_grouping:
  assumes new: "\<And>m x. ok x \<Longrightarrow> map_of m (key x) = None \<Longrightarrow>
                  step m x = AList.update (key x) (summ [x]) m"
    and old: "\<And>m x qs. ok x \<Longrightarrow> map_of m (key x) = Some (summ qs) \<Longrightarrow> qs \<noteq> [] \<Longrightarrow>
                  \<forall>q\<in>set qs. ok q \<Longrightarrow> step m x = AList.update (key x) (summ (qs @ [x])) m"
    and ok: "\<forall>x\<in>set xs. ok x"
  shows "foldl step [] xs =
         map (\<lambda>k. (k, summ (filter (\<lambda>x. key x = k) xs))) (first_seen (map key xs))"
  using ok
proof (induction xs rule: rev_induct)
  case Nil
  then show ?case by simp
next
  case (snoc x xs)
  let ?g = "\<lambda>k. summ (filter (\<lambda>x. key x = k) xs)"
  let ?ks = "first_seen (map key xs)"
  let ?m = "map (\<lambda>k. (k, ?g k)) ?ks"
  have IH: "foldl step [] xs = ?m" using snoc by simp
  have okx: "ok x" using snoc.prems by simp
  have step: "step ?m x = AList.update (key x) (summ (filter (\<lambda>y. key y = key x) (xs @ [x]))) ?m"
  proof (cases "key x \<in> set (map key xs)")
    case True
    then have "map_of ?m (key x) = Some (?g (key x))" by (simp add: map_of_tabulated)
    moreover have "filter (\<lambda>y. key y = key x) xs \<noteq> []"
      using True by (auto simp: filter_empty_conv)
    moreover have "\<forall>q\<in>set (filter (\<lambda>y. key y = key x) xs). ok q"
      using snoc.prems by simp
    ultimately show ?thesis using old [OF okx] by simp
  next
    case False
    then have "map_of ?m (key x) = None" by (simp add: map_of_tabulated)
    moreover have "\<forall>y\<in>set xs. key y \<noteq> key x"
      using False by (metis image_eqI set_map)
    then have "filter (\<lambda>y. key y = key x) xs = []"
      by (simp add: filter_empty_conv)
    ultimately show ?thesis using new [OF okx] by simp
  qed
  have "foldl step [] (xs @ [x]) = step ?m x" by (simp add: IH)
  also have "\<dots> = map (\<lambda>j. (j, (?g(key x := summ (filter (\<lambda>y. key y = key x) (xs @ [x])))) j))
                      (if key x \<in> set ?ks then ?ks else ?ks @ [key x])"
    unfolding step by (rule update_tabulated) simp
  also have "(if key x \<in> set ?ks then ?ks else ?ks @ [key x]) = first_seen (map key (xs @ [x]))"
    by (simp add: first_seen_snoc)
  also have "(\<lambda>j. (j, (?g(key x := summ (filter (\<lambda>y. key y = key x) (xs @ [x])))) j)) =
             (\<lambda>k. (k, summ (filter (\<lambda>y. key y = k) (xs @ [x]))))"
    by (rule ext) auto
  finally show ?case .
qed

text \<open>Summing the group sums over the distinct keys gives the sum over all elements.\<close>

lemma sum_list_indicator:
  "distinct ks \<Longrightarrow> sum_list (map (\<lambda>k. if a = k then (c::real) else 0) ks) = (if a \<in> set ks then c else 0)"
  by (induction ks) auto

lemma sum_list_groups:
  fixes f :: "'x \<Rightarrow> real"
  assumes "distinct ks" "key ` set xs \<subseteq> set ks"
  shows "sum_list (map (\<lambda>k. sum_list (map f (filter (\<lambda>x. key x = k) xs))) ks) = sum_list (map f xs)"
  using assms(2)
proof (induction xs)
  case Nil
  then show ?case by simp
next
  case (Cons a xs)
  have "sum_list (map (\<lambda>k. sum_list (map f (filter (\<lambda>x. key x = k) (a # xs)))) ks) =
        sum_list (map (\<lambda>k. (if key a = k then f a else 0) +
                            sum_list (map f (filter (\<lambda>x. key x = k) xs))) ks)"
    by (rule arg_cong [where f = sum_list], rule map_cong) auto
  also have "\<dots> = sum_list (map (\<lambda>k. if key a = k then f a else 0) ks) +
                   sum_list (map (\<lambda>k. sum_list (map f (filter (\<lambda>x. key x = k) xs))) ks)"
    by (simp add: sum_list_addf)
  also have "\<dots> = f a + sum_list (map f xs)"
    using Cons assms(1) by (simp add: sum_list_indicator)
  finally show ?case by simp
qed

subsection \<open>Sorting\<close>

lemma mset_js_insort: "mset (js_insort cmp x ys) = add_mset x (mset ys)"
  by (induction ys) auto

lemma mset_js_sort: "mset (js_sort cmp xs) = mset xs"
  unfolding js_sort_def by (induction xs) (auto simp: mset_js_insort)

lemma set_js_sort: "set (js_sort cmp xs) = set xs"
  using mset_js_sort [of cmp xs] by (metis set_mset_mset)

lemma length_js_sort: "length (js_sort cmp xs) = length xs"
  using mset_js_sort [of cmp xs] by (metis size_mset)

lemma sum_list_js_sort:
  fixes f :: "'a \<Rightarrow> real"
  shows "sum_list (map f (js_sort cmp xs)) = sum_list (map f xs)"
proof -
  have "mset (map f (js_sort cmp xs)) = mset (map f xs)"
    by (simp add: mset_js_sort)
  then show ?thesis by (metis sum_mset_sum_list)
qed

section \<open>Allocations\<close>

lemma is_fin_conv: "is_fin x \<Longrightarrow> x = Fin (real_of x)"
  by (cases x) simp_all

lemma foldl_js_add_fin:
  "\<forall>x\<in>set xs. is_fin (f x) \<Longrightarrow>
   foldl (\<lambda>sum x. js_add sum (f x)) (Fin a) xs = Fin (a + sum_list (map (\<lambda>x. real_of (f x)) xs))"
proof (induction xs arbitrary: a)
  case Nil
  then show ?case by simp
next
  case (Cons x xs)
  then obtain r where "f x = Fin r" by (cases "f x") auto
  with Cons show ?case by (simp add: add.assoc)
qed

lemma js_sum_fin:
  "\<forall>x\<in>set xs. is_fin (f x) \<Longrightarrow> js_sum (map f xs) = Fin (sum_list (map (\<lambda>x. real_of (f x)) xs))"
  using foldl_js_add_fin [of xs f 0] by (simp add: js_sum_def foldl_map)

lemma currentValue_fin:
  "\<forall>p\<in>set ps. is_fin (marketValue p) \<Longrightarrow> currentValue ps = Fin (market_value_sum ps)"
  using foldl_js_add_fin [of ps marketValue 0] by (simp add: currentValue_def market_value_sum_def)

lemma js_sum_marketValue: "js_sum (map marketValue ps) = currentValue ps"
  by (simp add: js_sum_def currentValue_def foldl_map)

lemma market_value_sum_snoc: "market_value_sum (qs @ [p]) = market_value_sum qs + real_of (marketValue p)"
  by (simp add: market_value_sum_def)

lemma sectorMap_tabulated:
  assumes "\<forall>p\<in>set ps. is_fin (marketValue p)"
  shows "foldl sectorMap_step [] ps =
         map (\<lambda>k. (k, (Fin (market_value_sum (filter (\<lambda>p. sector p = k) ps)),
                        length (filter (\<lambda>p. sector p = k) ps))))
           (first_seen (map sector ps))"
proof (rule foldl_grouping [where ok = "\<lambda>p. is_fin (marketValue p)"
      and summ = "\<lambda>qs. (Fin (market_value_sum qs), length qs)" and key = sector])
  fix m :: "(string \<times> number \<times> nat) list" and p :: Position
  assume "is_fin (marketValue p)" "map_of m (sector p) = None"
  then show "sectorMap_step m p =
      AList.update (sector p) (Fin (market_value_sum [p]), length [p]) m"
    by (cases "marketValue p") (simp_all add: sectorMap_step_def market_value_sum_def)
next
  fix m :: "(string \<times> number \<times> nat) list" and p :: Position and qs
  assume "is_fin (marketValue p)" "map_of m (sector p) = Some (Fin (market_value_sum qs), length qs)"
  then show "sectorMap_step m p =
      AList.update (sector p) (Fin (market_value_sum (qs @ [p])), length (qs @ [p])) m"
    by (cases "marketValue p") (simp_all add: sectorMap_step_def market_value_sum_snoc)
next
  show "\<forall>p\<in>set ps. is_fin (marketValue p)" by (rule assms)
qed

lemma assetMap_tabulated:
  assumes "\<forall>p\<in>set ps. is_fin (marketValue p)"
  shows "foldl assetMap_step [] ps =
         map (\<lambda>k. (k, Fin (market_value_sum (filter (\<lambda>p. assetType p = k) ps))))
           (first_seen (map assetType ps))"
proof (rule foldl_grouping [where ok = "\<lambda>p. is_fin (marketValue p)"
      and summ = "\<lambda>qs. Fin (market_value_sum qs)" and key = assetType])
  fix m :: "(AssetType \<times> number) list" and p :: Position
  assume "is_fin (marketValue p)" "map_of m (assetType p) = None"
  then show "assetMap_step m p = AList.update (assetType p) (Fin (market_value_sum [p])) m"
    by (cases "marketValue p") (simp_all add: assetMap_step_def market_value_sum_def)
next
  fix m :: "(AssetType \<times> number) list" and p :: Position and qs
  assume "is_fin (marketValue p)" "map_of m (assetType p) = Some (Fin (market_value_sum qs))"
  then show "assetMap_step m p = AList.update (assetType p) (Fin (market_value_sum (qs @ [p]))) m"
    by (cases "marketValue p") (simp_all add: assetMap_step_def market_value_sum_snoc)
next
  show "\<forall>p\<in>set ps. is_fin (marketValue p)" by (rule assms)
qed

lemma market_value_sum_groups:
  "sum_list (map (\<lambda>k. market_value_sum (filter (\<lambda>p. key p = k) ps)) (first_seen (map key ps))) =
   market_value_sum ps"
  unfolding market_value_sum_def by (rule sum_list_groups) simp_all

text \<open>The sector allocations, before and after sorting.\<close>

lemma set_calculateSectorAllocations:
  assumes "\<forall>p\<in>set ps. is_fin (marketValue p)"
  shows "set (calculateSectorAllocations ps) =
         (\<lambda>k. \<lparr> sa_sector = k,
                 sa_value = Fin (market_value_sum (filter (\<lambda>p. sector p = k) ps)),
                 sa_percentage = js_mul (js_div (Fin (market_value_sum (filter (\<lambda>p. sector p = k) ps)))
                                   (currentValue ps)) (Fin 100),
                 sa_count = length (filter (\<lambda>p. sector p = k) ps) \<rparr>) ` sector ` set ps"
  by (simp add: calculateSectorAllocations_def Let_def set_js_sort sectorMap_tabulated [OF assms]
      image_image)

lemma sum_calculateSectorAllocations:
  fixes f :: "SectorAllocation \<Rightarrow> real"
  assumes "\<forall>p\<in>set ps. is_fin (marketValue p)"
  shows "sum_list (map f (calculateSectorAllocations ps)) =
         sum_list (map (\<lambda>k. f \<lparr> sa_sector = k,
                 sa_value = Fin (market_value_sum (filter (\<lambda>p. sector p = k) ps)),
                 sa_percentage = js_mul (js_div (Fin (market_value_sum (filter (\<lambda>p. sector p = k) ps)))
                                   (currentValue ps)) (Fin 100),
                 sa_count = length (filter (\<lambda>p. sector p = k) ps) \<rparr>) (first_seen (map sector ps)))"
  by (simp add: calculateSectorAllocations_def Let_def sum_list_js_sort sectorMap_tabulated [OF assms]
      o_def)

lemma map_sa_sector_perm:
  assumes "\<forall>p\<in>set ps. is_fin (marketValue p)"
  shows "mset (map sa_sector (calculateSectorAllocations ps)) = mset (first_seen (map sector ps))"
  by (simp add: calculateSectorAllocations_def Let_def mset_js_sort sectorMap_tabulated [OF assms]
      multiset.map_comp comp_def)

lemma set_calculateAssetAllocations:
  assumes "\<forall>p\<in>set ps. is_fin (marketValue p)"
  shows "set (calculateAssetAllocations ps) =
         (\<lambda>k. \<lparr> aa_assetType = k,
                 aa_value = Fin (market_value_sum (filter (\<lambda>p. assetType p = k) ps)),
                 aa_percentage = js_mul (js_div (Fin (market_value_sum (filter (\<lambda>p. assetType p = k) ps)))
                                   (currentValue ps)) (Fin 100) \<rparr>) ` assetType ` set ps"
  by (simp add: calculateAssetAllocations_def Let_def set_js_sort assetMap_tabulated [OF assms]
      image_image)

lemma sum_calculateAssetAllocations:
  fixes f :: "AssetAllocation \<Rightarrow> real"
  assumes "\<forall>p\<in>set ps. is_fin (marketValue p)"
  shows "sum_list (map f (calculateAssetAllocations ps)) =
         sum_list (map (\<lambda>k. f \<lparr> aa_assetType = k,
                 aa_value = Fin (market_value_sum (filter (\<lambda>p. assetType p = k) ps)),
                 aa_percentage = js_mul (js_div (Fin (market_value_sum (filter (\<lambda>p. assetType p = k) ps)))
                                   (currentValue ps)) (Fin 100) \<rparr>) (first_seen (map assetType ps)))"
  by (simp add: calculateAssetAllocations_def Let_def sum_list_js_sort assetMap_tabulated [OF assms]
      o_def)

lemma percentage_zero_total:
  "js_mul (js_div (Fin v) (Fin 0)) (Fin 100) =
   (if 0 < v then PosInf else if v < 0 then NegInf else NaN)"
  by simp

lemma percentage_nonzero_total:
  "t \<noteq> 0 \<Longrightarrow> js_mul (js_div (Fin v) (Fin t)) (Fin 100) = Fin (v * (100 / t))"
  by simp

lemma group_percentages_sum:
  assumes "t \<noteq> 0" "market_value_sum ps = t"
  shows "sum_list (map (\<lambda>k. market_value_sum (filter (\<lambda>p. key p = k) ps) * 100 / t)
           (first_seen (map key ps))) = 100"
proof -
  have "sum_list (map (\<lambda>k. market_value_sum (filter (\<lambda>p. key p = k) ps) * 100 / t)
           (first_seen (map key ps))) = market_value_sum ps * (100 / t)"
    by (simp only: times_divide_eq_right [symmetric] sum_list_mult_const market_value_sum_groups)
  with assms show ?thesis by simp
qed

lemma portfolio_fin: "\<forall>p\<in>set portfolio. is_fin (marketValue p)"
  by (simp add: portfolio_def pos_def)

text \<open>
  Claim C3 wants every percentage to be 0, not \<open>NaN\<close>, when the total market value is
  zero. A single position worth 0 gives a total of 0, and both groupings report \<open>NaN\<close>.
\<close>

theorem allocation_percentages_counterexample:
  "currentValue [pos ''AAA'' ''Tech'' stock 10 100 0] = Fin 0 \<and>
   map sa_percentage (calculateSectorAllocations [pos ''AAA'' ''Tech'' stock 10 100 0]) = [NaN] \<and>
   map aa_percentage (calculateAssetAllocations [pos ''AAA'' ''Tech'' stock 10 100 0]) = [NaN]"
  by (simp add: calculateSectorAllocations_def calculateAssetAllocations_def pos_def sectorMap_step_def
       assetMap_step_def js_sort_def currentValue_def Let_def)

text \<open>
  C3, as the code has it, for positions with finite market values and both groupings:
  the division by the total is unguarded, so when the total market value is zero no
  percentage is 0; it is \<open>NaN\<close> for a group worth 0, and \<open>Infinity\<close> or \<open>-Infinity\<close> for a
  group of positive or negative value. When the total is not zero (in particular when it
  is positive) the percentages sum to 100, in exact arithmetic.
\<close>

theorem allocation_percentages_amended:
  assumes "\<forall>p\<in>set ps. is_fin (marketValue p)"
  shows "(currentValue ps = Fin 0 \<longrightarrow>
           (\<forall>a\<in>set (calculateSectorAllocations ps).
              sa_percentage a = (if 0 < real_of (sa_value a) then PosInf
                                 else if real_of (sa_value a) < 0 then NegInf else NaN)) \<and>
           (\<forall>a\<in>set (calculateAssetAllocations ps).
              aa_percentage a = (if 0 < real_of (aa_value a) then PosInf
                                 else if real_of (aa_value a) < 0 then NegInf else NaN))) \<and>
         (currentValue ps \<noteq> Fin 0 \<longrightarrow>
           js_sum (map sa_percentage (calculateSectorAllocations ps)) = Fin 100 \<and>
           js_sum (map aa_percentage (calculateAssetAllocations ps)) = Fin 100)"
proof -
  let ?t = "market_value_sum ps"
  have cur: "currentValue ps = Fin ?t" by (rule currentValue_fin [OF assms])
  note set_S = set_calculateSectorAllocations [OF assms, unfolded cur]
  note set_A = set_calculateAssetAllocations [OF assms, unfolded cur]
  have zero: "(\<forall>a\<in>set (calculateSectorAllocations ps).
              sa_percentage a = (if 0 < real_of (sa_value a) then PosInf
                                 else if real_of (sa_value a) < 0 then NegInf else NaN)) \<and>
           (\<forall>a\<in>set (calculateAssetAllocations ps).
              aa_percentage a = (if 0 < real_of (aa_value a) then PosInf
                                 else if real_of (aa_value a) < 0 then NegInf else NaN))"
    if "?t = 0"
    unfolding set_S set_A that by (simp add: percentage_zero_total)
  have nonzero: "js_sum (map sa_percentage (calculateSectorAllocations ps)) = Fin 100 \<and>
           js_sum (map aa_percentage (calculateAssetAllocations ps)) = Fin 100"
    if t: "?t \<noteq> 0"
  proof
    have fin: "\<forall>a\<in>set (calculateSectorAllocations ps). is_fin (sa_percentage a)"
      unfolding set_S using t by simp
    have "js_sum (map sa_percentage (calculateSectorAllocations ps)) =
          Fin (sum_list (map (\<lambda>a. real_of (sa_percentage a)) (calculateSectorAllocations ps)))"
      using fin by (rule js_sum_fin)
    also have "sum_list (map (\<lambda>a. real_of (sa_percentage a)) (calculateSectorAllocations ps)) = 100"
      using t by (simp add: sum_calculateSectorAllocations [OF assms] cur group_percentages_sum)
    finally show "js_sum (map sa_percentage (calculateSectorAllocations ps)) = Fin 100" .
  next
    have fin: "\<forall>a\<in>set (calculateAssetAllocations ps). is_fin (aa_percentage a)"
      unfolding set_A using t by simp
    have "js_sum (map aa_percentage (calculateAssetAllocations ps)) =
          Fin (sum_list (map (\<lambda>a. real_of (aa_percentage a)) (calculateAssetAllocations ps)))"
      using fin by (rule js_sum_fin)
    also have "sum_list (map (\<lambda>a. real_of (aa_percentage a)) (calculateAssetAllocations ps)) = 100"
      using t by (simp add: sum_calculateAssetAllocations [OF assms] cur group_percentages_sum)
    finally show "js_sum (map aa_percentage (calculateAssetAllocations ps)) = Fin 100" .
  qed
  from zero nonzero show ?thesis by (simp add: cur)
qed

theorem allocation_percentages_amended_witness:
  "js_sum (map sa_percentage (calculateSectorAllocations portfolio)) = Fin 100 \<and>
   js_sum (map aa_percentage (calculateAssetAllocations portfolio)) = Fin 100"
proof -
  have "currentValue portfolio \<noteq> Fin 0"
    by (simp add: currentValue_def portfolio_def pos_def)
  with allocation_percentages_amended [OF portfolio_fin] show ?thesis by blast
qed

section \<open>Double-precision arithmetic: rounding\<close>

lemma round_even_near: "\<bar>of_int (round_even x) - x\<bar> \<le> 1 / 2"
  unfolding round_even_def Let_def by (auto simp: abs_le_iff)

lemma round_even_of_int [simp]: "round_even (of_int n) = n"
  by (simp add: round_even_def)

lemma round_even_ge1:
  assumes "1 \<le> x"
  shows "1 \<le> round_even x"
proof -
  have "0 < real_of_int (round_even x)"
    using round_even_near [of x] assms by linarith
  then show ?thesis by simp
qed

lemma round_even_le_m1:
  assumes "x \<le> - 1"
  shows "round_even x \<le> - 1"
proof -
  have "real_of_int (round_even x) < 0"
    using round_even_near [of x] assms by linarith
  then show ?thesis by simp
qed

lemma two_powr_int: "(2::real) powr real_of_int k = 2 powi k"
  by (rule powr_real_of_int') simp_all

lemma binade_bounds:
  assumes "x \<noteq> 0"
  shows "2 powi \<lfloor>log 2 \<bar>x\<bar>\<rfloor> \<le> \<bar>x\<bar>" "\<bar>x\<bar> < 2 powi (\<lfloor>log 2 \<bar>x\<bar>\<rfloor> + 1)"
proof -
  have "0 < \<bar>x\<bar>" using assms by simp
  then have *: "2 powr real_of_int \<lfloor>log 2 \<bar>x\<bar>\<rfloor> \<le> \<bar>x\<bar> \<and>
      \<bar>x\<bar> < 2 powr (real_of_int \<lfloor>log 2 \<bar>x\<bar>\<rfloor> + 1)"
    using floor_log_eq_powr_iff [of "\<bar>x\<bar>" 2 "\<lfloor>log 2 \<bar>x\<bar>\<rfloor>"] by simp
  have "real_of_int \<lfloor>log 2 \<bar>x\<bar>\<rfloor> + 1 = real_of_int (\<lfloor>log 2 \<bar>x\<bar>\<rfloor> + 1)" by simp
  with * show "2 powi \<lfloor>log 2 \<bar>x\<bar>\<rfloor> \<le> \<bar>x\<bar>" "\<bar>x\<bar> < 2 powi (\<lfloor>log 2 \<bar>x\<bar>\<rfloor> + 1)"
    by (simp_all only: two_powr_int)
qed

lemma binade_eqI:
  assumes "2 powi k \<le> \<bar>x\<bar>" "\<bar>x\<bar> < 2 powi (k + 1)"
  shows "\<lfloor>log 2 \<bar>x\<bar>\<rfloor> = k"
proof -
  have "0 < (2::real) powi k" by simp
  then have pos: "0 < \<bar>x\<bar>" using assms(1) by (rule less_le_trans)
  have "real_of_int k + 1 = real_of_int (k + 1)" by simp
  then have "2 powr real_of_int k \<le> \<bar>x\<bar> \<and> \<bar>x\<bar> < 2 powr (real_of_int k + 1)"
    using assms by (simp only: two_powr_int)
  then show ?thesis
    using floor_log_eq_powr_iff [OF pos, of 2 k] by simp
qed

text \<open>Evaluation of a rounding in the normal range, given the binade.\<close>

lemma quantum_exponent_normal:
  assumes "2 powi k \<le> \<bar>x\<bar>" "\<bar>x\<bar> < 2 powi (k + 1)" "- 1022 \<le> k"
  shows "quantum_exponent x = k - 52"
  using binade_eqI [OF assms(1,2)] assms(3) by (simp add: quantum_exponent_def)

lemma round_double_normal:
  assumes "2 powi k \<le> \<bar>x\<bar>" "\<bar>x\<bar> < 2 powi (k + 1)" "- 1022 \<le> k"
    and "y = of_int (round_even (x / 2 powi (k - 52))) * 2 powi (k - 52)"
    and "\<bar>y\<bar> < 2 ^ 1024"
  shows "round_double x = Fin y"
proof -
  have "0 < (2::real) powi k" by simp
  then have "0 < \<bar>x\<bar>" using assms(1) by (rule less_le_trans)
  then have nz: "x \<noteq> 0" by auto
  have "rounded x = y"
    by (simp only: rounded_def quantum_exponent_normal [OF assms(1-3)] assms(4))
  then show ?thesis
    using nz assms(5) by (simp add: round_double_def abs_less_iff)
qed

subsection \<open>Sign, grid and range of a rounded result\<close>

lemma round_double_not_NaN [simp]: "round_double x \<noteq> NaN"
  by (simp add: round_double_def)

lemma round_double_0 [simp]: "round_double 0 = Fin 0"
  by (simp add: round_double_def)

lemma quantum_le:
  assumes "2 powi (- 1074) \<le> \<bar>x\<bar>"
  shows "2 powi quantum_exponent x \<le> \<bar>x\<bar>"
proof (cases "\<lfloor>log 2 \<bar>x\<bar>\<rfloor> - 52 \<le> - 1074")
  case True
  then show ?thesis using assms by (simp add: quantum_exponent_def max_def)
next
  case False
  have "0 < (2::real) powi (- 1074)" by simp
  then have "0 < \<bar>x\<bar>" using assms by (rule less_le_trans)
  then have nz: "x \<noteq> 0" by auto
  from False have "quantum_exponent x \<le> \<lfloor>log 2 \<bar>x\<bar>\<rfloor>"
    by (simp add: quantum_exponent_def max_def)
  then have "(2::real) powi quantum_exponent x \<le> 2 powi \<lfloor>log 2 \<bar>x\<bar>\<rfloor>"
    by (simp add: power_int_increasing)
  also have "\<dots> \<le> \<bar>x\<bar>" by (rule binade_bounds(1) [OF nz])
  finally show ?thesis .
qed

lemma rounded_pos:
  assumes "2 powi (- 1074) \<le> x"
  shows "0 < rounded x"
proof -
  have "0 < (2::real) powi (- 1074)" by simp
  then have pos: "0 < x" using assms by (rule less_le_trans)
  then have "2 powi quantum_exponent x \<le> x" using quantum_le [of x] assms by simp
  then have "1 \<le> x / 2 powi quantum_exponent x" by (simp add: le_divide_eq)
  then have "1 \<le> round_even (x / 2 powi quantum_exponent x)" by (rule round_even_ge1)
  then show ?thesis by (simp add: rounded_def zero_less_mult_iff)
qed

lemma rounded_neg:
  assumes "x \<le> - (2 powi (- 1074))"
  shows "rounded x < 0"
proof -
  have "0 < (2::real) powi (- 1074)" by simp
  then have neg: "x < 0" using assms by linarith
  then have "2 powi quantum_exponent x \<le> - x" using quantum_le [of x] assms by simp
  then have "x / 2 powi quantum_exponent x \<le> - 1" by (simp add: divide_le_eq)
  then have "round_even (x / 2 powi quantum_exponent x) \<le> - 1" by (rule round_even_le_m1)
  then have "real_of_int (round_even (x / 2 powi quantum_exponent x)) < 0" by simp
  then show ?thesis by (simp add: rounded_def mult_less_0_iff)
qed

lemma round_double_pos:
  assumes "2 powi (- 1074) \<le> x"
  shows "js_lt (Fin 0) (round_double x)"
proof -
  have "0 < (2::real) powi (- 1074)" by simp
  then have "0 < x" using assms by (rule less_le_trans)
  then show ?thesis
    using rounded_pos [OF assms] by (auto simp: round_double_def)
qed

lemma round_double_neg:
  assumes "x \<le> - (2 powi (- 1074))"
  shows "js_lt (round_double x) (Fin 0)"
proof -
  have "0 < (2::real) powi (- 1074)" by simp
  then have "x < 0" using assms by linarith
  then show ?thesis
    using rounded_neg [OF assms] by (auto simp: round_double_def)
qed

lemma on_grid_rounded: "on_grid (rounded x)"
proof -
  define e where "e = quantum_exponent x"
  define m where "m = round_even (x / 2 powi e)"
  have e: "0 \<le> e + 1074" by (simp add: e_def quantum_exponent_def)
  have "(2::real) powi (e + 1074) * 2 powi (- 1074) = 2 powi (e + 1074 + - 1074)"
    by (rule power_int_add [symmetric]) simp
  then have "(2::real) powi e = 2 powi (e + 1074) * 2 powi (- 1074)"
    by (simp only: add_diff_cancel add.assoc add.right_neutral
        add.right_inverse [of "1074::int"])
  also have "(2::real) powi (e + 1074) = of_int (2 ^ nat (e + 1074))"
    using e by (simp add: power_int_def)
  finally have E: "(2::real) powi e = of_int (2 ^ nat (e + 1074)) * 2 powi (- 1074)" .
  have "rounded x = of_int m * 2 powi e"
    by (simp only: rounded_def e_def m_def)
  also have "\<dots> = of_int m * (of_int (2 ^ nat (e + 1074)) * 2 powi (- 1074))"
    by (simp only: E)
  also have "\<dots> = of_int (m * 2 ^ nat (e + 1074)) * 2 powi (- 1074)"
    by (simp only: of_int_mult mult.assoc)
  finally have "rounded x = of_int (m * 2 ^ nat (e + 1074)) * 2 powi (- 1074)" .
  then show ?thesis unfolding on_grid_def by blast
qed

lemma round_double_Fin:
  assumes "round_double x = Fin y"
  shows "on_grid y \<and> \<bar>y\<bar> < 2 ^ 1024"
proof (cases "x = 0")
  case True
  with assms have "y = 0" by simp
  then show ?thesis by (auto simp: on_grid_def intro: exI [of _ 0])
next
  case False
  with assms have "y = rounded x" "\<bar>y\<bar> < 2 ^ 1024"
    by (auto simp: round_double_def split: if_splits)
  then show ?thesis using on_grid_rounded [of x] by simp
qed

lemma stored_round_double [simp]: "stored (round_double x)"
  using round_double_Fin [of x] by (cases "round_double x") (simp_all add: stored_def)

lemma stored_0 [simp]: "stored (Fin 0)"
  by (auto simp: stored_def on_grid_def intro: exI [of _ 0])

lemma stored_d_add: "stored a \<Longrightarrow> stored (d_add a (Fin t))"
  by (cases a) (simp_all add: stored_def [of PosInf] stored_def [of NegInf] stored_def [of NaN])

lemma grid_gap:
  assumes "on_grid a" "on_grid b" "a < b"
  shows "2 powi (- 1074) \<le> b - a"
proof -
  from assms(1,2) obtain n m :: int where
    a: "a = of_int n * 2 powi (- 1074)" and b: "b = of_int m * 2 powi (- 1074)"
    unfolding on_grid_def by blast
  have u: "0 < (2::real) powi (- 1074)" by simp
  from assms(3) have "real_of_int n < real_of_int m"
    unfolding a b using u by (simp only: mult_less_cancel_right_pos)
  then have "1 \<le> real_of_int (m - n)" by simp
  then have "1 * 2 powi (- 1074) \<le> real_of_int (m - n) * 2 powi (- 1074)"
    using u by (simp only: mult_le_cancel_right_pos)
  then show ?thesis by (simp add: a b algebra_simps)
qed

lemma d_sub_sign:
  assumes "stored a" "stored b"
  shows "js_gt (d_sub b a) (Fin 0) = (order_key a < order_key b)"
proof (cases a; cases b)
  fix x y assume ab: "a = Fin x" "b = Fin y"
  with assms have g: "on_grid x" "on_grid y" and r: "\<bar>x\<bar> < 2 ^ 1024" "\<bar>y\<bar> < 2 ^ 1024"
    by (simp_all add: stored_def)
  consider "x < y" | "x = y" | "y < x" by linarith
  then show ?thesis
  proof cases
    case 1
    from round_double_pos [OF grid_gap [OF g 1]] 1 show ?thesis
      by (simp add: ab js_gt_def)
  next
    case 2
    then show ?thesis by (simp add: ab js_gt_def)
  next
    case 3
    from grid_gap [OF g(2,1) 3] have "y - x \<le> - (2 powi (- 1074))" by simp
    from round_double_neg [OF this] 3 show ?thesis
      by (cases "round_double (y - x)") (simp_all add: ab js_gt_def)
  qed
qed (use assms in \<open>auto simp: stored_def js_gt_def js_sub_def abs_less_iff\<close>)

section \<open>The two arithmetics\<close>

lemma exact_simps [simp]:
  "fp_add exact = js_add" "fp_sub exact = js_sub" "fp_mul exact = js_mul"
  "fp_div exact = js_div" "fp_lit exact = Fin"
  by (simp_all add: exact_def)

lemma double_simps [simp]:
  "fp_add double = d_add" "fp_sub double = d_sub" "fp_mul double = d_mul"
  "fp_div double = d_div" "fp_lit double = round_double"
  by (simp_all add: double_def)

lemma currentValue_in_exact: "currentValue_in exact ps = currentValue ps"
  by (simp add: currentValue_in_def currentValue_def)

lemma sectorMap_step_in_exact: "sectorMap_step_in exact = sectorMap_step"
  by (intro ext) (simp add: sectorMap_step_in_def sectorMap_step_def)

lemma calculateSectorAllocations_in_exact:
  "calculateSectorAllocations_in exact ps = calculateSectorAllocations ps"
  by (simp add: calculateSectorAllocations_in_def calculateSectorAllocations_def
      sectorMap_step_in_exact currentValue_in_exact)

lemma growthFactor_in_exact: "i \<le> daysBack \<Longrightarrow> growthFactor_in exact i r = growthFactor i r"
  by (simp add: growthFactor_in_def growthFactor_def of_nat_diff)

lemma snapshot_at_in_exact:
  "i \<le> daysBack \<Longrightarrow> snapshot_at_in exact dateAgo random ps i = snapshot_at dateAgo random ps i"
  by (simp add: snapshot_at_in_def snapshot_at_def growthFactor_in_exact currentValue_in_exact)

lemma generateMockHistoricalSnapshots_in_exact:
  "generateMockHistoricalSnapshots_in exact dateAgo random ps =
   generateMockHistoricalSnapshots dateAgo random ps"
  by (simp add: generateMockHistoricalSnapshots_in_def generateMockHistoricalSnapshots_def
      snapshot_at_in_exact less_Suc_eq_le del: upt_Suc)

section \<open>Sector allocation in any arithmetic\<close>

lemma currentValue_in_snoc:
  "currentValue_in A (qs @ [p]) = fp_add A (currentValue_in A qs) (marketValue p)"
  by (simp add: currentValue_in_def)

lemma sectorMap_in_tabulated:
  "foldl (sectorMap_step_in A) [] ps =
   map (\<lambda>k. (k, (currentValue_in A (filter (\<lambda>p. sector p = k) ps),
                  length (filter (\<lambda>p. sector p = k) ps))))
     (first_seen (map sector ps))"
proof (rule foldl_grouping [where ok = "\<lambda>p. True"
      and summ = "\<lambda>qs. (currentValue_in A qs, length qs)" and key = sector])
  fix m :: "(string \<times> number \<times> nat) list" and p :: Position
  assume "map_of m (sector p) = None"
  then show "sectorMap_step_in A m p =
      AList.update (sector p) (currentValue_in A [p], length [p]) m"
    by (simp add: sectorMap_step_in_def currentValue_in_def)
next
  fix m :: "(string \<times> number \<times> nat) list" and p :: Position and qs
  assume "map_of m (sector p) = Some (currentValue_in A qs, length qs)"
  then show "sectorMap_step_in A m p =
      AList.update (sector p) (currentValue_in A (qs @ [p]), length (qs @ [p])) m"
    by (simp add: sectorMap_step_in_def currentValue_in_snoc)
qed simp

lemma set_calculateSectorAllocations_in:
  "set (calculateSectorAllocations_in A ps) =
     (\<lambda>k. \<lparr> sa_sector = k,
             sa_value = currentValue_in A (filter (\<lambda>p. sector p = k) ps),
             sa_percentage = fp_mul A (fp_div A (currentValue_in A (filter (\<lambda>p. sector p = k) ps))
                               (currentValue_in A ps)) (Fin 100),
             sa_count = length (filter (\<lambda>p. sector p = k) ps) \<rparr>) ` sector ` set ps"
  by (simp add: calculateSectorAllocations_in_def Let_def set_js_sort sectorMap_in_tabulated
      image_image)

lemma map_sa_sector_in_perm:
  "mset (map sa_sector (calculateSectorAllocations_in A ps)) = mset (first_seen (map sector ps))"
  by (simp add: calculateSectorAllocations_in_def Let_def mset_js_sort sectorMap_in_tabulated
      multiset.map_comp comp_def)

lemma alloc_round_1: "round_double (1 / 10) = Fin (3602879701896397 / 36028797018963968)"
  by (rule round_double_normal [where k = "-4"])
    (simp_all add: round_even_def power_int_minus_divide)

lemma alloc_round_2: "round_double (11 / 10) = Fin (2476979795053773 / 2251799813685248)"
  by (rule round_double_normal [where k = "0"])
    (simp_all add: round_even_def power_int_minus_divide)

lemma alloc_round_3: "d_add (Fin 0) (Fin (3602879701896397 / 36028797018963968)) = Fin (3602879701896397 / 36028797018963968)"
  unfolding d_add.simps
  by (rule round_double_normal [where k = "-4"])
    (simp_all add: round_even_def power_int_minus_divide)

lemma alloc_round_4: "d_add (Fin (3602879701896397 / 36028797018963968)) (Fin (3602879701896397 / 36028797018963968)) = Fin (3602879701896397 / 18014398509481984)"
  unfolding d_add.simps
  by (rule round_double_normal [where k = "-3"])
    (simp_all add: round_even_def power_int_minus_divide)

lemma alloc_round_5: "d_add (Fin (3602879701896397 / 18014398509481984)) (Fin (2476979795053773 / 2251799813685248)) = Fin (5854679515581645 / 4503599627370496)"
  unfolding d_add.simps
  by (rule round_double_normal [where k = "0"])
    (simp_all add: round_even_def power_int_minus_divide)

lemma alloc_round_6: "d_add (Fin (3602879701896397 / 36028797018963968)) (Fin (2476979795053773 / 2251799813685248)) = Fin (1351079888211149 / 1125899906842624)"
  unfolding d_add.simps
  by (rule round_double_normal [where k = "0"])
    (simp_all add: round_even_def power_int_minus_divide)

lemma alloc_round_7: "d_sub (Fin (3602879701896397 / 36028797018963968)) (Fin (1351079888211149 / 1125899906842624)) = Fin (- (2476979795053773 / 2251799813685248))"
  unfolding d_sub.simps
  by (rule round_double_normal [where k = "0"])
    (simp_all add: round_even_def power_int_minus_divide)

lemma alloc_round_8: "d_add (Fin 0) (Fin (1351079888211149 / 1125899906842624)) = Fin (1351079888211149 / 1125899906842624)"
  unfolding d_add.simps
  by (rule round_double_normal [where k = "0"])
    (simp_all add: round_even_def power_int_minus_divide)

lemma alloc_round_9: "d_add (Fin (1351079888211149 / 1125899906842624)) (Fin (3602879701896397 / 36028797018963968)) = Fin (2927339757790823 / 2251799813685248)"
  unfolding d_add.simps
  by (rule round_double_normal [where k = "0"])
    (simp_all add: round_even_def power_int_minus_divide)

lemmas alloc_round = alloc_round_1 alloc_round_2 alloc_round_3 alloc_round_4 alloc_round_5 alloc_round_6 alloc_round_7 alloc_round_8 alloc_round_9

text \<open>
  Claim C8 equates the sum of the per-group values with the sum of \<open>marketValue\<close> over all
  positions. In the arithmetic of the program the two sums are taken in different orders.
  With positions A (sector X, 0.1), B (sector Y, 0.1) and C (sector X, 1.1) the groups are
  worth 1.2000000000000002 and 0.1 and add up to 1.3000000000000003, while the market
  values add up to 1.3; the exact sums of the stored values differ as well.
\<close>

theorem sector_allocation_counterexample:
  "map sa_value (calculateSectorAllocations_in double rounding_positions) =
     [Fin (1351079888211149 / 1125899906842624), Fin (3602879701896397 / 36028797018963968)] \<and>
   foldl d_add (Fin 0) (map sa_value (calculateSectorAllocations_in double rounding_positions)) =
     Fin (2927339757790823 / 2251799813685248) \<and>
   currentValue_in double rounding_positions = Fin (5854679515581645 / 4503599627370496) \<and>
   foldl d_add (Fin 0) (map sa_value (calculateSectorAllocations_in double rounding_positions)) \<noteq>
     currentValue_in double rounding_positions \<and>
   js_sum (map sa_value (calculateSectorAllocations_in double rounding_positions)) \<noteq>
     js_sum (map marketValue rounding_positions)"
proof -
  have v: "map sa_value (calculateSectorAllocations_in double rounding_positions) =
     [Fin (1351079888211149 / 1125899906842624), Fin (3602879701896397 / 36028797018963968)]"
    by (simp add: calculateSectorAllocations_in_def sectorMap_step_in_def currentValue_in_def
        rounding_positions_def pos_def js_sort_def Let_def alloc_round
        del: d_add.simps d_sub.simps)
  have t: "currentValue_in double rounding_positions = Fin (5854679515581645 / 4503599627370496)"
    by (simp add: currentValue_in_def rounding_positions_def pos_def alloc_round del: d_add.simps)
  have s: "foldl d_add (Fin 0) [Fin (1351079888211149 / 1125899906842624), Fin (3602879701896397 / 36028797018963968)] = Fin (2927339757790823 / 2251799813685248)"
    by (simp add: alloc_round del: d_add.simps)
  have e: "js_sum [Fin (1351079888211149 / 1125899906842624), Fin (3602879701896397 / 36028797018963968)] \<noteq> js_sum (map marketValue rounding_positions)"
    by (simp add: js_sum_def rounding_positions_def pos_def)
  from v t s e show ?thesis by simp
qed

text \<open>
  C8, as the code has it, in every arithmetic and so in that of the program: every
  position is counted in exactly one group. The groups carry distinct sectors, the
  sectors are those of the positions, and each group's count is the number of the
  positions of its sector and its value their market values added up in input order. That
  the group values add up to the sum of \<open>marketValue\<close> over all positions holds in exact
  arithmetic, for finite market values.
\<close>

theorem sector_allocation_amended:
  "distinct (map sa_sector (calculateSectorAllocations_in A ps)) \<and>
   set (map sa_sector (calculateSectorAllocations_in A ps)) = sector ` set ps \<and>
   (\<forall>a\<in>set (calculateSectorAllocations_in A ps).
      sa_value a = currentValue_in A (filter (\<lambda>p. sector p = sa_sector a) ps) \<and>
      sa_count a = length (filter (\<lambda>p. sector p = sa_sector a) ps)) \<and>
   ((\<forall>p\<in>set ps. is_fin (marketValue p)) \<longrightarrow>
      js_sum (map sa_value (calculateSectorAllocations_in exact ps)) =
      js_sum (map marketValue ps))"
proof -
  let ?R = "calculateSectorAllocations_in A ps"
  have 1: "distinct (map sa_sector ?R)"
    using map_sa_sector_in_perm [of A ps] by (metis distinct_first_seen mset_eq_imp_distinct_iff)
  have 2: "set (map sa_sector ?R) = sector ` set ps"
    using map_sa_sector_in_perm [of A ps] by (metis set_first_seen set_map mset_eq_setD)
  have 3: "\<forall>a\<in>set ?R.
      sa_value a = currentValue_in A (filter (\<lambda>p. sector p = sa_sector a) ps) \<and>
      sa_count a = length (filter (\<lambda>p. sector p = sa_sector a) ps)"
    unfolding set_calculateSectorAllocations_in by auto
  have 4: "js_sum (map sa_value (calculateSectorAllocations_in exact ps)) =
      js_sum (map marketValue ps)"
    if fin: "\<forall>p\<in>set ps. is_fin (marketValue p)"
  proof -
    let ?E = "calculateSectorAllocations ps"
    have "\<forall>a\<in>set ?E. is_fin (sa_value a)"
      unfolding set_calculateSectorAllocations [OF fin] by auto
    then have "js_sum (map sa_value ?E) = Fin (sum_list (map (\<lambda>a. real_of (sa_value a)) ?E))"
      by (rule js_sum_fin)
    also have "sum_list (map (\<lambda>a. real_of (sa_value a)) ?E) = market_value_sum ps"
      by (simp add: sum_calculateSectorAllocations [OF fin] market_value_sum_groups)
    finally show ?thesis
      by (simp add: calculateSectorAllocations_in_exact js_sum_marketValue currentValue_fin [OF fin])
  qed
  from 1 2 3 4 show ?thesis by blast
qed

theorem sector_allocation_amended_witness:
  "distinct (map sa_sector (calculateSectorAllocations_in double rounding_positions)) \<and>
   set (map sa_sector (calculateSectorAllocations_in double rounding_positions)) = {''X'', ''Y''} \<and>
   list_all (\<lambda>a. sa_value a =
                   currentValue_in double (filter (\<lambda>p. sector p = sa_sector a) rounding_positions) \<and>
                 sa_count a = length (filter (\<lambda>p. sector p = sa_sector a) rounding_positions))
     (calculateSectorAllocations_in double rounding_positions) \<and>
   js_sum (map sa_value (calculateSectorAllocations_in exact portfolio)) =
     js_sum (map marketValue portfolio)"
proof -
  have s: "sector ` set rounding_positions = {''X'', ''Y''}"
    by (auto simp: rounding_positions_def pos_def)
  from sector_allocation_amended [of double rounding_positions]
    sector_allocation_amended [of exact portfolio] portfolio_fin s
  show ?thesis unfolding list_all_iff by simp
qed

section \<open>Generated snapshots in any arithmetic\<close>

lemma generate_in_nth:
  assumes "k < 366"
  shows "generateMockHistoricalSnapshots_in A dateAgo random ps ! k =
         snapshot_at_in A dateAgo random ps (365 - k)"
proof -
  have "rev [0..<366] ! k = 365 - k"
    using assms by (simp add: rev_nth)
  then show ?thesis
    using assms by (simp add: generateMockHistoricalSnapshots_in_def daysBack_def del: upt_Suc)
qed

lemma growthFactor_exact_value:
  assumes "i \<le> 365"
  shows "growthFactor_in exact i r =
         Fin (1 + real (365 - i) * (3 / 10000) + (r - 1 / 2) * (2 / 100))"
  using assms by (simp add: growthFactor_in_def daysBack_def of_nat_diff)

lemma gen_round_1: "round_double (3 / 10000) = Fin (5534023222112865 / 18446744073709551616)"
  by (rule round_double_normal [where k = "-12"])
    (simp_all add: round_even_def power_int_minus_divide)

lemma gen_round_2: "round_double (1 / 2) = Fin (1 / 2)"
  by (rule round_double_normal [where k = "-1"])
    (simp_all add: round_even_def power_int_minus_divide)

lemma gen_round_3: "round_double (1 / 50) = Fin (5764607523034235 / 288230376151711744)"
  by (rule round_double_normal [where k = "-6"])
    (simp_all add: round_even_def power_int_minus_divide)

lemma gen_round_4: "d_sub (Fin 365) (Fin 364) = Fin 1"
  unfolding d_sub.simps
  by (rule round_double_normal [where k = "0"])
    (simp_all add: round_even_def power_int_minus_divide)

lemma gen_round_5: "d_mul (Fin 1) (Fin (5534023222112865 / 18446744073709551616)) = Fin (5534023222112865 / 18446744073709551616)"
  unfolding d_mul.simps
  by (rule round_double_normal [where k = "-12"])
    (simp_all add: round_even_def power_int_minus_divide)

lemma gen_round_6: "d_add (Fin 1) (Fin (5534023222112865 / 18446744073709551616)) = Fin (4504950707258707 / 4503599627370496)"
  unfolding d_add.simps
  by (rule round_double_normal [where k = "0"])
    (simp_all add: round_even_def power_int_minus_divide)

lemma gen_round_7: "d_sub (Fin (1 / 2)) (Fin (1 / 2)) = Fin 0"
  by simp

lemma gen_round_8: "d_mul (Fin 0) (Fin (5764607523034235 / 288230376151711744)) = Fin 0"
  by simp

lemma gen_round_9: "d_add (Fin (4504950707258707 / 4503599627370496)) (Fin 0) = Fin (4504950707258707 / 4503599627370496)"
  unfolding d_add.simps
  by (rule round_double_normal [where k = "0"])
    (simp_all add: round_even_def power_int_minus_divide)

lemma gen_round_10: "d_add (Fin 0) (Fin 110) = Fin 110"
  unfolding d_add.simps
  by (rule round_double_normal [where k = "6"])
    (simp_all add: round_even_def power_int_minus_divide)

lemma gen_round_11: "d_add (Fin 110) (Fin 100) = Fin 210"
  unfolding d_add.simps
  by (rule round_double_normal [where k = "7"])
    (simp_all add: round_even_def power_int_minus_divide)

lemma gen_round_12: "d_div (Fin 210) (Fin (4504950707258707 / 4503599627370496)) = Fin (7386502187998321 / 35184372088832)"
proof -
  have "round_double (210 / (4504950707258707 / 4503599627370496)) = Fin (7386502187998321 / 35184372088832)"
    by (rule round_double_normal [where k = "7"])
      (simp_all add: round_even_def power_int_minus_divide)
  then show ?thesis by simp
qed

lemma gen_round_13: "d_div (Fin 110) (Fin (4504950707258707 / 4503599627370496)) = Fin (1934560096856703 / 17592186044416)"
proof -
  have "round_double (110 / (4504950707258707 / 4503599627370496)) = Fin (1934560096856703 / 17592186044416)"
    by (rule round_double_normal [where k = "6"])
      (simp_all add: round_even_def power_int_minus_divide)
  then show ?thesis by simp
qed

lemma gen_round_14: "d_div (Fin 100) (Fin (4504950707258707 / 4503599627370496)) = Fin (7034763988569829 / 70368744177664)"
proof -
  have "round_double (100 / (4504950707258707 / 4503599627370496)) = Fin (7034763988569829 / 70368744177664)"
    by (rule round_double_normal [where k = "6"])
      (simp_all add: round_even_def power_int_minus_divide)
  then show ?thesis by simp
qed

lemma gen_round_15: "d_add (Fin 0) (Fin (1934560096856703 / 17592186044416)) = Fin (1934560096856703 / 17592186044416)"
  unfolding d_add.simps
  by (rule round_double_normal [where k = "6"])
    (simp_all add: round_even_def power_int_minus_divide)

lemma gen_round_16: "d_add (Fin (1934560096856703 / 17592186044416)) (Fin (7034763988569829 / 70368744177664)) = Fin (461656386749895 / 2199023255552)"
  unfolding d_add.simps
  by (rule round_double_normal [where k = "7"])
    (simp_all add: round_even_def power_int_minus_divide)

lemmas gen_round = gen_round_1 gen_round_2 gen_round_3 gen_round_4 gen_round_5 gen_round_6 gen_round_7 gen_round_8 gen_round_9 gen_round_10 gen_round_11 gen_round_12 gen_round_13 gen_round_14 gen_round_15 gen_round_16

text \<open>
  Claim C10 has every generated snapshot's \<open>totalValue\<close> equal to the sum of \<open>marketValue\<close>
  over its own positions. In the arithmetic of the program the quotient of the sum is not
  the sum of the quotients. With market values 110 and 100 and every random number 0.5,
  the second snapshot (364 days back) has the total value 209.93701889433171 while its
  positions add up to 209.9370188943317.
\<close>

theorem generated_snapshots_counterexample:
  "totalValue (generateMockHistoricalSnapshots_in double (\<lambda>i. Fin (- real i)) (\<lambda>k. 1 / 2)
       two_positions ! 1) = Fin (7386502187998321 / 35184372088832) \<and>
   map marketValue (positions (generateMockHistoricalSnapshots_in double (\<lambda>i. Fin (- real i))
       (\<lambda>k. 1 / 2) two_positions ! 1)) = [Fin (1934560096856703 / 17592186044416), Fin (7034763988569829 / 70368744177664)] \<and>
   currentValue_in double (positions (generateMockHistoricalSnapshots_in double
       (\<lambda>i. Fin (- real i)) (\<lambda>k. 1 / 2) two_positions ! 1)) = Fin (461656386749895 / 2199023255552) \<and>
   totalValue (generateMockHistoricalSnapshots_in double (\<lambda>i. Fin (- real i)) (\<lambda>k. 1 / 2)
       two_positions ! 1) \<noteq>
   currentValue_in double (positions (generateMockHistoricalSnapshots_in double
       (\<lambda>i. Fin (- real i)) (\<lambda>k. 1 / 2) two_positions ! 1))"
proof -
  have g: "growthFactor_in double 364 (1 / 2) = Fin (4504950707258707 / 4503599627370496)"
    by (simp add: growthFactor_in_def daysBack_def gen_round
        del: d_add.simps d_sub.simps d_mul.simps)
  have c: "currentValue_in double two_positions = Fin 210"
    by (simp add: currentValue_in_def two_positions_def pos_def gen_round del: d_add.simps)
  have n: "generateMockHistoricalSnapshots_in double (\<lambda>i. Fin (- real i)) (\<lambda>k. 1 / 2)
       two_positions ! 1 = snapshot_at_in double (\<lambda>i. Fin (- real i)) (\<lambda>k. 1 / 2) two_positions 364"
    using generate_in_nth [of 1] by simp
  have t: "totalValue (snapshot_at_in double (\<lambda>i. Fin (- real i)) (\<lambda>k. 1 / 2) two_positions 364) =
      Fin (7386502187998321 / 35184372088832)"
    by (simp add: snapshot_at_in_def Let_def g c gen_round del: d_div.simps)
  have m: "map marketValue (positions (snapshot_at_in double (\<lambda>i. Fin (- real i)) (\<lambda>k. 1 / 2)
      two_positions 364)) = [Fin (1934560096856703 / 17592186044416), Fin (7034763988569829 / 70368744177664)]"
    by (simp add: snapshot_at_in_def Let_def g two_positions_def pos_def gen_round
        del: d_div.simps)
  have s: "currentValue_in double (positions (snapshot_at_in double (\<lambda>i. Fin (- real i))
      (\<lambda>k. 1 / 2) two_positions 364)) = Fin (461656386749895 / 2199023255552)"
    by (simp add: snapshot_at_in_def Let_def g two_positions_def pos_def currentValue_in_def
        gen_round del: d_div.simps d_add.simps)
  from n t m s show ?thesis by simp
qed

text \<open>
  C10, as the code has it, in every arithmetic and so in that of the program: the
  generator produces 366 snapshots, and in the snapshot at index \<open>k\<close> (\<open>365 - k\<close> days back)
  the total value, and every position's market value and price, are today's figures
  divided by one and the same factor, the growth factor of that day,
  \<open>1 + (365 - i) * 0.0003 + (random - 0.5) * 0.02\<close> computed in that arithmetic for
  \<open>i = 365 - k\<close>. In exact arithmetic,
  for random numbers in \<open>[0, 1)\<close>, that factor is
  \<open>1 + k * 0.0003 + (random - 0.5) * 0.02\<close>, it is positive, and \<open>totalValue\<close> equals the
  sum of \<open>marketValue\<close> over the snapshot's own positions, also for no positions at all.
\<close>

theorem generated_snapshots_amended:
  "length (generateMockHistoricalSnapshots_in A dateAgo random ps) = 366 \<and>
   (\<forall>k<366.
      totalValue (generateMockHistoricalSnapshots_in A dateAgo random ps ! k) =
        fp_div A (currentValue_in A ps) (growthFactor_in A (365 - k) (random (2 * k))) \<and>
      map marketValue (positions (generateMockHistoricalSnapshots_in A dateAgo random ps ! k)) =
        map (\<lambda>p. fp_div A (marketValue p) (growthFactor_in A (365 - k) (random (2 * k)))) ps \<and>
      map currentPrice (positions (generateMockHistoricalSnapshots_in A dateAgo random ps ! k)) =
        map (\<lambda>p. fp_div A (currentPrice p) (growthFactor_in A (365 - k) (random (2 * k)))) ps \<and>
      growthFactor_in A (365 - k) (random (2 * k)) =
        fp_add A
          (fp_add A (Fin 1)
             (fp_mul A (fp_sub A (Fin 365) (Fin (real (365 - k)))) (fp_lit A (3 / 10000))))
          (fp_mul A (fp_sub A (Fin (random (2 * k))) (fp_lit A (1 / 2))) (fp_lit A (2 / 100)))) \<and>
   ((\<forall>k. 0 \<le> random k \<and> random k < 1) \<longrightarrow>
      (\<forall>k<366.
         growthFactor_in exact (365 - k) (random (2 * k)) =
           Fin (1 + real k * (3 / 10000) + (random (2 * k) - 1 / 2) * (2 / 100)) \<and>
         0 < 1 + real k * (3 / 10000) + (random (2 * k) - 1 / 2) * (2 / 100) \<and>
         totalValue (generateMockHistoricalSnapshots_in exact dateAgo random ps ! k) =
           currentValue_in exact
             (positions (generateMockHistoricalSnapshots_in exact dateAgo random ps ! k))))"
proof -
  have 1: "length (generateMockHistoricalSnapshots_in A dateAgo random ps) = 366"
    by (simp add: generateMockHistoricalSnapshots_in_def daysBack_def)
  have 2: "totalValue (generateMockHistoricalSnapshots_in A dateAgo random ps ! k) =
        fp_div A (currentValue_in A ps) (growthFactor_in A (365 - k) (random (2 * k))) \<and>
      map marketValue (positions (generateMockHistoricalSnapshots_in A dateAgo random ps ! k)) =
        map (\<lambda>p. fp_div A (marketValue p) (growthFactor_in A (365 - k) (random (2 * k)))) ps \<and>
      map currentPrice (positions (generateMockHistoricalSnapshots_in A dateAgo random ps ! k)) =
        map (\<lambda>p. fp_div A (currentPrice p) (growthFactor_in A (365 - k) (random (2 * k)))) ps \<and>
      growthFactor_in A (365 - k) (random (2 * k)) =
        fp_add A
          (fp_add A (Fin 1)
             (fp_mul A (fp_sub A (Fin 365) (Fin (real (365 - k)))) (fp_lit A (3 / 10000))))
          (fp_mul A (fp_sub A (Fin (random (2 * k))) (fp_lit A (1 / 2))) (fp_lit A (2 / 100)))"
    if "k < 366" for k
  proof -
    have "daysBack - (365 - k) = k" using that by (simp add: daysBack_def)
    moreover have "growthFactor_in A (365 - k) (random (2 * k)) =
        fp_add A
          (fp_add A (Fin 1)
             (fp_mul A (fp_sub A (Fin 365) (Fin (real (365 - k)))) (fp_lit A (3 / 10000))))
          (fp_mul A (fp_sub A (Fin (random (2 * k))) (fp_lit A (1 / 2))) (fp_lit A (2 / 100)))"
      by (simp add: growthFactor_in_def daysBack_def)
    ultimately show ?thesis
      by (simp add: generate_in_nth [OF that] snapshot_at_in_def Let_def o_def)
  qed
  have 3: "growthFactor_in exact (365 - k) (random (2 * k)) =
           Fin (1 + real k * (3 / 10000) + (random (2 * k) - 1 / 2) * (2 / 100)) \<and>
         0 < 1 + real k * (3 / 10000) + (random (2 * k) - 1 / 2) * (2 / 100) \<and>
         totalValue (generateMockHistoricalSnapshots_in exact dateAgo random ps ! k) =
           currentValue_in exact
             (positions (generateMockHistoricalSnapshots_in exact dateAgo random ps ! k))"
    if r: "\<forall>k. 0 \<le> random k \<and> random k < 1" and k: "k < 366" for k
  proof -
    have a: "growthFactor_in exact (365 - k) (random (2 * k)) =
           Fin (1 + real k * (3 / 10000) + (random (2 * k) - 1 / 2) * (2 / 100))"
      using k growthFactor_exact_value [of "365 - k" "random (2 * k)"] by simp
    have "0 \<le> real k * (3 / 10000)" by simp
    moreover have "- (1 / 100) \<le> (random (2 * k) - 1 / 2) * (2 / 100)" using r by simp
    ultimately have b: "0 < 1 + real k * (3 / 10000) + (random (2 * k) - 1 / 2) * (2 / 100)"
      by linarith
    have "generateMockHistoricalSnapshots_in exact dateAgo random ps ! k \<in>
          set (generateMockHistoricalSnapshots dateAgo random ps)"
      unfolding generateMockHistoricalSnapshots_in_exact
      by (rule nth_mem) (simp add: generateMockHistoricalSnapshots_def daysBack_def k)
    then obtain i where "generateMockHistoricalSnapshots_in exact dateAgo random ps ! k =
        snapshot_at dateAgo random ps i"
      unfolding generateMockHistoricalSnapshots_def by auto
    with snapshot_at_consistent [OF r, of dateAgo ps i] have
      "totalValue (generateMockHistoricalSnapshots_in exact dateAgo random ps ! k) =
           currentValue
             (positions (generateMockHistoricalSnapshots_in exact dateAgo random ps ! k))"
      by auto
    with a b show ?thesis by (simp add: currentValue_in_exact)
  qed
  from 1 2 3 show ?thesis by blast
qed

theorem generated_snapshots_amended_witness:
  "length (generateMockHistoricalSnapshots_in double (\<lambda>i. Fin (- real i)) (\<lambda>k. 1 / 2)
      two_positions) = 366 \<and>
   totalValue (generateMockHistoricalSnapshots_in double (\<lambda>i. Fin (- real i)) (\<lambda>k. 1 / 2)
      two_positions ! 1) =
     d_div (currentValue_in double two_positions) (growthFactor_in double 364 (1 / 2)) \<and>
   map marketValue (positions (generateMockHistoricalSnapshots_in double (\<lambda>i. Fin (- real i))
      (\<lambda>k. 1 / 2) two_positions ! 1)) =
     map (\<lambda>p. d_div (marketValue p) (growthFactor_in double 364 (1 / 2))) two_positions \<and>
   growthFactor_in exact 364 (1 / 2) = Fin (10003 / 10000) \<and>
   totalValue (generateMockHistoricalSnapshots_in exact (\<lambda>i. Fin (- real i)) (\<lambda>k. 1 / 2)
      two_positions ! 1) =
     currentValue_in exact (positions (generateMockHistoricalSnapshots_in exact
       (\<lambda>i. Fin (- real i)) (\<lambda>k. 1 / 2) two_positions ! 1))"
proof -
  have r: "\<forall>k::nat. (0::real) \<le> 1 / 2 \<and> (1::real) / 2 < 1" by simp
  have k: "(1::nat) < 366" by simp
  note D = generated_snapshots_amended [of double "\<lambda>i. Fin (- real i)" "\<lambda>k. 1 / 2" two_positions]
  note D1 = D [THEN conjunct1]
  note D2 = D [THEN conjunct2, THEN conjunct1, THEN spec, of 1, THEN mp, OF k]
  note E = generated_snapshots_amended [of exact "\<lambda>i. Fin (- real i)" "\<lambda>k. 1 / 2" two_positions,
      THEN conjunct2, THEN conjunct2, THEN mp, OF r, THEN spec, of 1, THEN mp, OF k]
  from D1 D2 have d: "length (generateMockHistoricalSnapshots_in double (\<lambda>i. Fin (- real i)) (\<lambda>k. 1 / 2)
      two_positions) = 366 \<and>
   totalValue (generateMockHistoricalSnapshots_in double (\<lambda>i. Fin (- real i)) (\<lambda>k. 1 / 2)
      two_positions ! 1) =
     d_div (currentValue_in double two_positions) (growthFactor_in double 364 (1 / 2)) \<and>
   map marketValue (positions (generateMockHistoricalSnapshots_in double (\<lambda>i. Fin (- real i))
      (\<lambda>k. 1 / 2) two_positions ! 1)) =
     map (\<lambda>p. d_div (marketValue p) (growthFactor_in double 364 (1 / 2))) two_positions"
    by simp
  from E have e: "growthFactor_in exact 364 (1 / 2) = Fin (10003 / 10000) \<and>
   totalValue (generateMockHistoricalSnapshots_in exact (\<lambda>i. Fin (- real i)) (\<lambda>k. 1 / 2)
      two_positions ! 1) =
     currentValue_in exact (positions (generateMockHistoricalSnapshots_in exact
       (\<lambda>i. Fin (- real i)) (\<lambda>k. 1 / 2) two_positions ! 1))"
    by simp
  from d e show ?thesis by blast
qed

section \<open>Most traded stocks\<close>

lemma ledger_round_1: "round_double (3 / 10) = Fin (5404319552844595 / 18014398509481984)"
  by (rule round_double_normal [where k = "-2"])
    (simp_all add: round_even_def power_int_minus_divide)

lemma ledger_round_2: "round_double (1 / 10) = Fin (3602879701896397 / 36028797018963968)"
  by (rule round_double_normal [where k = "-4"])
    (simp_all add: round_even_def power_int_minus_divide)

lemma ledger_round_3: "round_double (1 / 5) = Fin (3602879701896397 / 18014398509481984)"
  by (rule round_double_normal [where k = "-3"])
    (simp_all add: round_even_def power_int_minus_divide)

lemma ledger_round_4: "d_add (Fin 0) (Fin (5404319552844595 / 18014398509481984)) = Fin (5404319552844595 / 18014398509481984)"
  unfolding d_add.simps
  by (rule round_double_normal [where k = "-2"])
    (simp_all add: round_even_def power_int_minus_divide)

lemma ledger_round_5: "d_add (Fin 0) (Fin (3602879701896397 / 36028797018963968)) = Fin (3602879701896397 / 36028797018963968)"
  unfolding d_add.simps
  by (rule round_double_normal [where k = "-4"])
    (simp_all add: round_even_def power_int_minus_divide)

lemma ledger_round_6: "d_add (Fin (3602879701896397 / 36028797018963968)) (Fin (3602879701896397 / 18014398509481984)) = Fin (1351079888211149 / 4503599627370496)"
  unfolding d_add.simps
  by (rule round_double_normal [where k = "-2"])
    (simp_all add: round_even_def power_int_minus_divide)

lemma ledger_round_7: "d_sub (Fin (1351079888211149 / 4503599627370496)) (Fin (5404319552844595 / 18014398509481984)) = Fin (1 / 18014398509481984)"
  unfolding d_sub.simps
  by (rule round_double_normal [where k = "-54"])
    (simp_all add: round_even_def power_int_minus_divide)

lemma ledger_round_8: "d_add (Fin 0) (Fin 10) = Fin 10"
  unfolding d_add.simps
  by (rule round_double_normal [where k = "3"])
    (simp_all add: round_even_def power_int_minus_divide)

lemma ledger_round_9: "d_sub (Fin 10) (Fin 10) = Fin 0"
  by simp

lemmas ledger_round = ledger_round_1 ledger_round_2 ledger_round_3 ledger_round_4 ledger_round_5 ledger_round_6 ledger_round_7 ledger_round_8 ledger_round_9

lemma stored_falsy: "stored v \<Longrightarrow> \<not> truthy v \<Longrightarrow> v = Fin 0"
  by (cases v) (simp_all add: stored_def)

lemma stored_foldl_d_add:
  "stored a \<Longrightarrow> \<forall>t\<in>set qs. is_fin (total t) \<Longrightarrow>
   stored (foldl (\<lambda>sum t. d_add sum (total t)) a qs)"
proof (induction qs arbitrary: a)
  case Nil
  then show ?case by simp
next
  case (Cons q qs)
  then obtain r where "total q = Fin r" by (cases "total q") auto
  with Cons show ?case by (simp add: stored_d_add)
qed

lemma stored_volume:
  "\<forall>t\<in>set txs. is_fin (total t) \<Longrightarrow> stored (volume_in double txs s)"
  unfolding volume_in_def by (simp add: stored_foldl_d_add)

lemma js_le_stored:
  assumes "stored a" "stored b"
  shows "js_le a b = (order_key a \<le> order_key b)"
  using assms by (cases a; cases b) (auto simp: stored_def js_le_def abs_less_iff)

lemma symbolVolume_tabulated:
  assumes "\<forall>t\<in>set txs. is_fin (total t) \<and> txn_symbol t \<notin> set objectPrototypeKeys"
  shows "symbolVolume double txs =
         map (\<lambda>k. (k, Number (volume_in double txs k))) (first_seen (map txn_symbol txs))"
  unfolding symbolVolume_def volume_in_def
proof (rule foldl_grouping [where ok = "\<lambda>t. is_fin (total t) \<and> txn_symbol t \<notin> set objectPrototypeKeys"
      and summ = "\<lambda>qs :: Transaction list. Number (foldl (\<lambda>sum t. fp_add double sum (total t)) (Fin 0) qs)"
      and key = txn_symbol])
  fix m :: "(string \<times> property) list" and t :: Transaction
  assume "is_fin (total t) \<and> txn_symbol t \<notin> set objectPrototypeKeys"
    "map_of m (txn_symbol t) = None"
  then show "symbolVolume_step double m t =
      AList.update (txn_symbol t)
        (Number (foldl (\<lambda>sum t. fp_add double sum (total t)) (Fin 0) [t])) m"
    by (simp add: symbolVolume_step_def update_conv' del: d_add.simps)
next
  fix m :: "(string \<times> property) list" and t :: Transaction and qs :: "Transaction list"
  let ?v = "foldl (\<lambda>sum t. fp_add double sum (total t)) (Fin 0) qs"
  assume ok: "is_fin (total t) \<and> txn_symbol t \<notin> set objectPrototypeKeys"
    and m: "map_of m (txn_symbol t) = Some (Number ?v)"
    and qs: "\<forall>q\<in>set qs. is_fin (total q) \<and> txn_symbol q \<notin> set objectPrototypeKeys"
  have "stored ?v" using qs by (simp add: stored_foldl_d_add)
  then have "\<not> truthy ?v \<Longrightarrow> ?v = Fin 0" by (rule stored_falsy)
  then show "symbolVolume_step double m t =
      AList.update (txn_symbol t)
        (Number (foldl (\<lambda>sum t. fp_add double sum (total t)) (Fin 0) (qs @ [t]))) m"
    using m by (cases "truthy ?v") (simp_all add: symbolVolume_step_def update_conv' del: d_add.simps)
next
  show "\<forall>t\<in>set txs. is_fin (total t) \<and> txn_symbol t \<notin> set objectPrototypeKeys"
    by (rule assms)
qed

lemma js_insort_insort_key:
  assumes "stored (to_number (ts_total x))" "\<forall>y\<in>set ys. stored (to_number (ts_total y))"
  shows "js_insort (\<lambda>a b. d_sub (to_number (ts_total b)) (to_number (ts_total a))) x ys =
         insort_key (\<lambda>a. - order_key (to_number (ts_total a))) x ys"
  using assms(2)
proof (induction ys)
  case Nil
  then show ?case by simp
next
  case (Cons y ys)
  then have "js_gt (d_sub (to_number (ts_total y)) (to_number (ts_total x))) (Fin 0) =
      (order_key (to_number (ts_total x)) < order_key (to_number (ts_total y)))"
    using d_sub_sign [OF assms(1), of "to_number (ts_total y)"] by simp
  with Cons show ?case by (auto simp del: d_sub.simps)
qed

lemma js_sort_sort_key:
  assumes "\<forall>x\<in>set xs. stored (to_number (ts_total x))"
  shows "js_sort (\<lambda>a b. d_sub (to_number (ts_total b)) (to_number (ts_total a))) xs =
         sort_key (\<lambda>a. - order_key (to_number (ts_total a))) xs"
  using assms
proof (induction xs)
  case Nil
  then show ?case by (simp add: js_sort_def)
next
  case (Cons x xs)
  then have IH: "foldr (js_insort (\<lambda>a b. d_sub (to_number (ts_total b)) (to_number (ts_total a)))) xs [] =
                 sort_key (\<lambda>a. - order_key (to_number (ts_total a))) xs"
    by (simp add: js_sort_def)
  have "\<forall>y\<in>set (sort_key (\<lambda>a. - order_key (to_number (ts_total a))) xs).
          stored (to_number (ts_total y))"
    using Cons.prems by simp
  with Cons.prems show ?case
    by (simp add: js_sort_def IH js_insort_insort_key)
qed

lemma mset_Object_entries: "mset (Object_entries obj) = mset obj"
  by (simp add: Object_entries_def)

lemma Object_entries_no_index:
  "\<forall>e\<in>set obj. \<not> isArrayIndex (fst e) \<Longrightarrow> Object_entries obj = obj"
  by (simp add: Object_entries_def filter_empty_conv [THEN iffD2] filter_id_conv [THEN iffD2])

lemma inherited_keys_example:
  "symbolVolume double [txn ''txn-0'' 1 ''__proto__'' buy 10] = [] \<and>
   symbolVolume double [txn ''txn-0'' 1 ''constructor'' buy 10] = [(''constructor'', Text)]"
  by (simp add: symbolVolume_def symbolVolume_step_def txn_def objectPrototypeKeys_def)

lemma topTradedStocks_ledger_tie: "topTradedStocks double ledger_tie =
     [\<lparr> ts_symbol = ''B'', ts_total = Number (Fin 10) \<rparr>,
      \<lparr> ts_symbol = ''A'', ts_total = Number (Fin 10) \<rparr>]"
  by (simp add: topTradedStocks_def symbolVolume_def symbolVolume_step_def Object_entries_def
      isArrayIndex_def js_sort_def ledger_tie_def txn_def less_eq_char_def objectPrototypeKeys_def
      ledger_round del: d_add.simps d_sub.simps)

lemma topTradedStocks_ledger_rounding: "topTradedStocks double ledger_rounding =
     [\<lparr> ts_symbol = ''B'', ts_total = Number (Fin (1351079888211149 / 4503599627370496)) \<rparr>,
      \<lparr> ts_symbol = ''A'', ts_total = Number (Fin (5404319552844595 / 18014398509481984)) \<rparr>]"
  by (simp add: topTradedStocks_def symbolVolume_def symbolVolume_step_def Object_entries_def
      isArrayIndex_def js_sort_def ledger_rounding_def txn_def less_eq_char_def objectPrototypeKeys_def
      ledger_round del: d_add.simps d_sub.simps)

text \<open>
  Claim C7 breaks ties in volume by the lexical order of the symbols. The code only sorts
  by volume, and the sort is stable: with \<open>B\<close> traded before \<open>A\<close>, both for 10, \<open>B\<close>
  stays first.
\<close>

theorem top_traded_counterexample:
  "topTradedStocks double ledger_tie =
     [\<lparr> ts_symbol = ''B'', ts_total = Number (Fin 10) \<rparr>,
      \<lparr> ts_symbol = ''A'', ts_total = Number (Fin 10) \<rparr>] \<and>
   \<not> ties_lexical (topTradedStocks double ledger_tie)"
  by (simp add: topTradedStocks_ledger_tie ties_lexical_def less_eq_char_def)

text \<open>
  C7, as the code has it, in the arithmetic of the program, for transactions whose totals
  are finite and whose symbols are not property names that a plain object inherits
  (\<open>objectPrototypeKeys\<close>): the result has at most 5 entries, the number being fixed in the
  code, and at most as many as there are distinct symbols; its symbols are distinct
  symbols of the ledger; each entry's volume is the sum of \<open>total\<close> over all transactions of
  its symbol, whatever their type, added up in ledger order; the volumes are
  non-increasing, and no symbol left out has a larger volume than an entry of the result.
  Ties are not broken by symbol: the result is the first 5 of a stable sort by descending
  volume of the entries in the order of \<open>Object.entries\<close>, which is the order of first
  appearance in the ledger when no symbol is an array index (array indices come first, in
  ascending numeric order).
\<close>

theorem top_traded_amended:
  assumes fin: "\<forall>t\<in>set txs. is_fin (total t)"
    and proto: "\<forall>t\<in>set txs. txn_symbol t \<notin> set objectPrototypeKeys"
  shows "length (topTradedStocks double txs) \<le> 5 \<and>
         length (topTradedStocks double txs) \<le> card (txn_symbol ` set txs) \<and>
         distinct (map ts_symbol (topTradedStocks double txs)) \<and>
         (\<forall>e\<in>set (topTradedStocks double txs).
            ts_symbol e \<in> txn_symbol ` set txs \<and>
            ts_total e = Number (volume_in double txs (ts_symbol e))) \<and>
         sorted_wrt (\<lambda>a b. js_le (to_number (ts_total b)) (to_number (ts_total a)))
           (topTradedStocks double txs) \<and>
         (\<forall>t\<in>set txs. txn_symbol t \<notin> ts_symbol ` set (topTradedStocks double txs) \<longrightarrow>
            (\<forall>e\<in>set (topTradedStocks double txs).
               js_le (volume_in double txs (txn_symbol t)) (to_number (ts_total e)))) \<and>
         topTradedStocks double txs =
           take 5 (sort_key (\<lambda>e. - order_key (to_number (ts_total e)))
             (map (\<lambda>(s, v). \<lparr> ts_symbol = s, ts_total = v \<rparr>)
                (Object_entries
                   (map (\<lambda>s. (s, Number (volume_in double txs s)))
                      (first_seen (map txn_symbol txs)))))) \<and>
         ((\<forall>t\<in>set txs. \<not> isArrayIndex (txn_symbol t)) \<longrightarrow>
            topTradedStocks double txs =
              take 5 (sort_key (\<lambda>e. - order_key (to_number (ts_total e)))
                (map (\<lambda>s. \<lparr> ts_symbol = s, ts_total = Number (volume_in double txs s) \<rparr>)
                   (first_seen (map txn_symbol txs)))))"
proof -
  let ?ks = "first_seen (map txn_symbol txs)"
  let ?E = "symbolVolume double txs"
  let ?mk = "\<lambda>(symbol, total). \<lparr> ts_symbol = symbol, ts_total = total \<rparr>"
  let ?L = "map ?mk (Object_entries ?E)"
  let ?f = "\<lambda>e. - order_key (to_number (ts_total e))"
  let ?S = "sort_key ?f ?L"
  let ?vol = "volume_in double txs"
  have E: "?E = map (\<lambda>k. (k, Number (?vol k))) ?ks"
    using fin proto by (intro symbolVolume_tabulated) simp
  have st: "stored (?vol s)" for s by (rule stored_volume [OF fin])
  have set_OE: "set (Object_entries ?E) = set ?E"
    using mset_Object_entries [of ?E] by (metis set_mset_mset)
  have set_L: "set ?L = (\<lambda>k. \<lparr> ts_symbol = k, ts_total = Number (?vol k) \<rparr>) ` txn_symbol ` set txs"
    by (simp add: set_OE) (simp add: E image_image)
  have st_L: "\<forall>x\<in>set ?L. stored (to_number (ts_total x))"
    unfolding set_L by (simp add: st)
  have top: "topTradedStocks double txs = take 5 ?S"
    unfolding topTradedStocks_def using js_sort_sort_key [OF st_L] by simp
  have len_S: "length ?S = card (txn_symbol ` set txs)"
  proof -
    have "length ?S = size (mset (Object_entries ?E))" by simp
    also have "\<dots> = length ?ks" by (simp add: mset_Object_entries) (simp add: E)
    finally show ?thesis by (simp add: length_first_seen)
  qed
  have syms: "mset (map ts_symbol ?S) = mset ?ks"
  proof -
    have "mset (map ts_symbol ?S) = image_mset (\<lambda>e. ts_symbol (?mk e)) (mset (Object_entries ?E))"
      by (simp add: multiset.map_comp comp_def)
    also have "\<dots> = image_mset (\<lambda>e. ts_symbol (?mk e)) (mset ?E)"
      by (simp only: mset_Object_entries)
    also have "\<dots> = mset ?ks"
      by (subst E) (simp add: multiset.map_comp comp_def)
    finally show ?thesis .
  qed
  have 1: "length (topTradedStocks double txs) \<le> 5" by (simp add: top)
  have 2: "length (topTradedStocks double txs) \<le> card (txn_symbol ` set txs)"
    unfolding top using len_S by simp
  have "distinct (map ts_symbol ?S)"
    using syms by (metis distinct_first_seen mset_eq_imp_distinct_iff)
  then have 3: "distinct (map ts_symbol (topTradedStocks double txs))"
    unfolding top take_map [symmetric] by (rule distinct_take)
  have sub: "set (topTradedStocks double txs) \<subseteq> set ?L"
    unfolding top using set_take_subset [of 5 ?S] by simp
  then have 4: "\<forall>e\<in>set (topTradedStocks double txs).
            ts_symbol e \<in> txn_symbol ` set txs \<and>
            ts_total e = Number (?vol (ts_symbol e))"
    unfolding set_L by auto
  have st_r: "stored (to_number (ts_total e))" if "e \<in> set (topTradedStocks double txs)" for e
    using sub st_L that by blast
  have "sorted (map ?f ?S)" by (rule sorted_sort_key)
  then have sorted_S: "sorted_wrt (\<lambda>a b. ?f a \<le> ?f b) ?S" by (simp add: sorted_map)
  have 7: "\<forall>t\<in>set txs. txn_symbol t \<notin> ts_symbol ` set (topTradedStocks double txs) \<longrightarrow>
            (\<forall>e\<in>set (topTradedStocks double txs).
               js_le (?vol (txn_symbol t)) (to_number (ts_total e)))"
  proof (intro ballI impI)
    fix t e
    assume t: "t \<in> set txs" "txn_symbol t \<notin> ts_symbol ` set (topTradedStocks double txs)"
      and e: "e \<in> set (topTradedStocks double txs)"
    let ?x = "\<lparr> ts_symbol = txn_symbol t, ts_total = Number (?vol (txn_symbol t)) \<rparr>"
    have "?x \<in> set ?L" unfolding set_L using t(1) by blast
    then have "?x \<in> set ?S" by simp
    moreover have "set ?S = set (take 5 ?S) \<union> set (drop 5 ?S)"
      by (metis append_take_drop_id set_append)
    moreover have "?x \<notin> set (take 5 ?S)"
      using t(2) unfolding top by force
    ultimately have x: "?x \<in> set (drop 5 ?S)" by blast
    have "sorted_wrt (\<lambda>a b. ?f a \<le> ?f b) (take 5 ?S @ drop 5 ?S)"
      using sorted_S by simp
    then have "\<forall>a\<in>set (take 5 ?S). \<forall>b\<in>set (drop 5 ?S). ?f a \<le> ?f b"
      unfolding sorted_wrt_append by blast
    with x e have "?f e \<le> ?f ?x" unfolding top by blast
    then show "js_le (?vol (txn_symbol t)) (to_number (ts_total e))"
      using js_le_stored [OF st st_r [OF e]] by simp
  qed
  from sorted_S have "sorted_wrt (\<lambda>a b. ?f a \<le> ?f b) (take 5 ?S)" by (rule sorted_wrt_take)
  then have "sorted_wrt (\<lambda>a b. ?f a \<le> ?f b) (topTradedStocks double txs)"
    by (simp only: top)
  then have 5: "sorted_wrt (\<lambda>a b. js_le (to_number (ts_total b)) (to_number (ts_total a)))
           (topTradedStocks double txs)"
    by (rule sorted_wrt_mono_rel [rotated]) (simp add: js_le_stored st_r)
  have 6: "topTradedStocks double txs =
           take 5 (sort_key ?f
             (map (\<lambda>(s, v). \<lparr> ts_symbol = s, ts_total = v \<rparr>)
                (Object_entries (map (\<lambda>s. (s, Number (?vol s))) ?ks))))"
    by (simp only: top E)
  have 8: "topTradedStocks double txs =
              take 5 (sort_key ?f
                (map (\<lambda>s. \<lparr> ts_symbol = s, ts_total = Number (?vol s) \<rparr>) ?ks))"
    if "\<forall>t\<in>set txs. \<not> isArrayIndex (txn_symbol t)"
  proof -
    have "\<forall>e\<in>set ?E. \<not> isArrayIndex (fst e)"
      using that by (subst E) auto
    then have "Object_entries ?E = ?E" by (rule Object_entries_no_index)
    then have "?L = map (\<lambda>s. \<lparr> ts_symbol = s, ts_total = Number (?vol s) \<rparr>) ?ks"
      by (simp add: E)
    then show ?thesis by (simp only: top)
  qed
  from 1 2 3 4 5 6 7 8 show ?thesis by blast
qed

theorem top_traded_amended_witness:
  "topTradedStocks double ledger_rounding =
     [\<lparr> ts_symbol = ''B'', ts_total = Number (Fin (1351079888211149 / 4503599627370496)) \<rparr>,
      \<lparr> ts_symbol = ''A'', ts_total = Number (Fin (5404319552844595 / 18014398509481984)) \<rparr>] \<and>
   list_all (\<lambda>e. ts_total e = Number (volume_in double ledger_rounding (ts_symbol e)))
     (topTradedStocks double ledger_rounding) \<and>
   topTradedStocks double ledger_rounding =
     take 5 (sort_key (\<lambda>e. - order_key (to_number (ts_total e)))
       (map (\<lambda>s. \<lparr> ts_symbol = s, ts_total = Number (volume_in double ledger_rounding s) \<rparr>)
          (first_seen (map txn_symbol ledger_rounding))))"
proof -
  have fin: "\<forall>t\<in>set ledger_rounding. is_fin (total t)"
    by (simp add: ledger_rounding_def txn_def)
  have proto: "\<forall>t\<in>set ledger_rounding. txn_symbol t \<notin> set objectPrototypeKeys"
    by (simp add: ledger_rounding_def txn_def objectPrototypeKeys_def)
  have noidx: "\<forall>t\<in>set ledger_rounding. \<not> isArrayIndex (txn_symbol t)"
    by (simp add: ledger_rounding_def txn_def isArrayIndex_def less_eq_char_def)
  from top_traded_amended [OF fin proto] noidx topTradedStocks_ledger_rounding show ?thesis
    unfolding list_all_iff by blast
qed

end
